theory Spec2Isabelle
  imports Complex_Main "HOL-Library.Log_Nat"
begin

section \<open>The margin calculator: position model\<close>

text \<open>
  The program is one Python module, \<^verbatim>\<open>main.py\<close>: a dataclass \<^verbatim>\<open>MarginPosition\<close>
  with five float fields and eight read-only properties, and a function \<^verbatim>\<open>main\<close> that
  builds one position from the input widgets and then a table of variants of it at other
  leverage levels.

  Numbers. The fields are Python floats, and the module is modelled twice.

  The first model takes the numbers as \<^typ>\<open>real\<close> and the four operations as exact.
  It serves the statements in which both sides are the same expression of the source, or
  which are about raising and about which rows the table holds: such statements do not
  depend on how a result is rounded. What this model keeps of the float semantics is the
  one way float arithmetic raises in this module: \<^verbatim>\<open>x / y\<close> raises
  \<^verbatim>\<open>ZeroDivisionError\<close> when \<^verbatim>\<open>y\<close> is zero. Addition, subtraction and multiplication
  of floats never raise.

  The second model, further down, is the arithmetic Python really performs, IEEE 754
  binary64 with rounding to nearest. It serves the statements about the values that the
  properties return.
\<close>

subsection \<open>Errors\<close>

text \<open>
  \<open>ZeroDivisionError\<close> is the only exception the module's own arithmetic can raise.
  \<open>InvalidInput\<close> is the error the specification names for a rejected construction;
  it is listed so that statements about it can be written, and no function below
  returns it, because no line of the source raises it.
\<close>

datatype error = ZeroDivisionError | InvalidInput

text \<open>Python's \<^verbatim>\<open>a / b\<close> on floats.\<close>

definition py_div :: "real \<Rightarrow> real \<Rightarrow> error + real" where
  "py_div a b = (if b = 0 then Inl ZeroDivisionError else Inr (a / b))"

subsection \<open>The dataclass\<close>

text \<open>
  \<^verbatim>\<open>
  @dataclass
  class MarginPosition:
      amount: float
      ltv: float
      leverage: float
      collateral_rate: float
      borrow_rate: float
  \<close>
\<close>

record MarginPosition =
  amount :: real
  ltv :: real
  leverage :: real
  collateral_rate :: real
  borrow_rate :: real

text \<open>
  The constructor is the \<^verbatim>\<open>__init__\<close> that \<^verbatim>\<open>@dataclass\<close> generates: it stores its
  five arguments. The class defines no \<^verbatim>\<open>__post_init__\<close> and no other check, so the
  constructor has no failing branch.
\<close>

definition MarginPosition_init ::
    "real \<Rightarrow> real \<Rightarrow> real \<Rightarrow> real \<Rightarrow> real \<Rightarrow> error + MarginPosition" where
  "MarginPosition_init a l lev cr br =
     Inr \<lparr>amount = a, ltv = l, leverage = lev, collateral_rate = cr, borrow_rate = br\<rparr>"

subsection \<open>The properties\<close>

text \<open>\<^verbatim>\<open>return 1 / (1 - self.ltv)\<close>\<close>

definition max_leverage :: "MarginPosition \<Rightarrow> error + real" where
  "max_leverage self = py_div 1 (1 - ltv self)"

text \<open>\<^verbatim>\<open>return self.amount\<close>\<close>

definition collateral :: "MarginPosition \<Rightarrow> real" where
  "collateral self = amount self"

text \<open>\<^verbatim>\<open>return self.amount * (self.leverage - 1)\<close>\<close>

definition borrow :: "MarginPosition \<Rightarrow> real" where
  "borrow self = amount self * (leverage self - 1)"

text \<open>\<^verbatim>\<open>return self.collateral + self.borrow\<close>\<close>

definition deposit :: "MarginPosition \<Rightarrow> real" where
  "deposit self = collateral self + borrow self"

text \<open>
  \<^verbatim>\<open>
  return (self.collateral_rate * self.collateral * self.leverage -
          self.borrow_rate * self.borrow) / self.collateral * 100
  \<close>
  The property does not call \<^verbatim>\<open>annual_earnings\<close>; it repeats the expression.
\<close>

definition net_apy :: "MarginPosition \<Rightarrow> error + real" where
  "net_apy self =
     (case py_div (collateral_rate self * collateral self * leverage self -
                   borrow_rate self * borrow self) (collateral self) of
        Inl e \<Rightarrow> Inl e
      | Inr q \<Rightarrow> Inr (q * 100))"

text \<open>
  \<^verbatim>\<open>
  return (self.collateral_rate * self.collateral * self.leverage -
          self.borrow_rate * self.borrow)
  \<close>
\<close>

definition annual_earnings :: "MarginPosition \<Rightarrow> real" where
  "annual_earnings self =
     collateral_rate self * collateral self * leverage self - borrow_rate self * borrow self"

text \<open>\<^verbatim>\<open>return self.annual_earnings / 12\<close>\<close>

definition monthly_earnings :: "MarginPosition \<Rightarrow> error + real" where
  "monthly_earnings self = py_div (annual_earnings self) 12"

text \<open>\<^verbatim>\<open>return self.annual_earnings / 365\<close>\<close>

definition daily_earnings :: "MarginPosition \<Rightarrow> error + real" where
  "daily_earnings self = py_div (annual_earnings self) 365"

subsection \<open>The sensitivity table of \<^verbatim>\<open>main\<close>\<close>

text \<open>
  The default values of the five input widgets of \<^verbatim>\<open>main\<close>: amount 100.0, LTV 0.8,
  leverage \<^verbatim>\<open>min(5.0, max_lev)\<close>, which is 5 at LTV 0.8, and the two rates 13.76 and 10.97
  percent, each divided by 100.
\<close>

definition default_position :: MarginPosition where
  "default_position =
     \<lparr>amount = 100, ltv = 0.8, leverage = 5,
      collateral_rate = 13.76 / 100, borrow_rate = 10.97 / 100\<rparr>"

text \<open>
  A row of the table is a Python dict from column title to display string, written here
  as the association list of the dict literal, in its order.

  The display strings are f-string conversions of floats. The conversions themselves
  belong to Python, not to this module, and are parameters of the model:
  \<open>fixed2 x\<close> stands for \<^verbatim>\<open>f"{x:.2f}"\<close> and \<open>grouped2 x\<close> for \<^verbatim>\<open>f"{x:,.2f}"\<close>.
\<close>

type_synonym row = "(string \<times> string) list"

text \<open>
  \<^verbatim>\<open>
  sensitivity_data.append({
      "Leverage": f"{lev:.2f}x",
      "Position Size": f"${test_pos.deposit:,.2f}",
      "Net APY": f"{test_pos.net_apy:.2f}%",
      "Annual $": f"${test_pos.annual_earnings:,.2f}",
      "Monthly $": f"${test_pos.monthly_earnings:,.2f}",
      "Daily $": f"${test_pos.daily_earnings:,.2f}"
  })
  \<close>
  The values of a dict literal are evaluated in the order written, so the first property
  that raises decides the error.
\<close>

definition sensitivity_row ::
    "(real \<Rightarrow> string) \<Rightarrow> (real \<Rightarrow> string) \<Rightarrow> real \<Rightarrow> MarginPosition \<Rightarrow> error + row" where
  "sensitivity_row fixed2 grouped2 lev test_pos =
     (case net_apy test_pos of
        Inl e \<Rightarrow> Inl e
      | Inr apy \<Rightarrow>
     (case monthly_earnings test_pos of
        Inl e \<Rightarrow> Inl e
      | Inr monthly \<Rightarrow>
     (case daily_earnings test_pos of
        Inl e \<Rightarrow> Inl e
      | Inr daily \<Rightarrow>
          Inr [(''Leverage'', fixed2 lev @ ''x''),
               (''Position Size'', ''$'' @ grouped2 (deposit test_pos)),
               (''Net APY'', fixed2 apy @ ''%''),
               (''Annual $'', ''$'' @ grouped2 (annual_earnings test_pos)),
               (''Monthly $'', ''$'' @ grouped2 monthly),
               (''Daily $'', ''$'' @ grouped2 daily)])))"

text \<open>
  \<^verbatim>\<open>
  for lev in leverages:
      if lev <= position.max_leverage:
          test_pos = MarginPosition(amount=position.amount, ltv=position.ltv, leverage=lev,
              collateral_rate=position.collateral_rate, borrow_rate=position.borrow_rate)
          sensitivity_data.append({...})
  \<close>
  The loop, with the list \<^verbatim>\<open>sensitivity_data\<close> as accumulator. The bound
  \<^verbatim>\<open>position.max_leverage\<close> is a property and is evaluated again for every candidate.
\<close>

fun sensitivity_loop ::
    "(real \<Rightarrow> string) \<Rightarrow> (real \<Rightarrow> string) \<Rightarrow> MarginPosition \<Rightarrow> real list \<Rightarrow> row list
       \<Rightarrow> error + row list" where
  "sensitivity_loop fixed2 grouped2 position [] sensitivity_data = Inr sensitivity_data"
| "sensitivity_loop fixed2 grouped2 position (lev # rest) sensitivity_data =
     (case max_leverage position of
        Inl e \<Rightarrow> Inl e
      | Inr m \<Rightarrow>
          if lev \<le> m then
            (case MarginPosition_init (amount position) (ltv position) lev
                    (collateral_rate position) (borrow_rate position) of
               Inl e \<Rightarrow> Inl e
             | Inr test_pos \<Rightarrow>
                 (case sensitivity_row fixed2 grouped2 lev test_pos of
                    Inl e \<Rightarrow> Inl e
                  | Inr r \<Rightarrow>
                      sensitivity_loop fixed2 grouped2 position rest (sensitivity_data @ [r])))
          else sensitivity_loop fixed2 grouped2 position rest sensitivity_data)"

text \<open>\<^verbatim>\<open>leverages = [1.0, 2.0, 3.0, 4.0, 5.0, position.max_leverage]\<close>\<close>

definition leverages :: "MarginPosition \<Rightarrow> error + real list" where
  "leverages position =
     (case max_leverage position of
        Inl e \<Rightarrow> Inl e
      | Inr m \<Rightarrow> Inr [1, 2, 3, 4, 5, m])"

text \<open>
  Lines 107 to 126 of \<^verbatim>\<open>main\<close>: the menu, the empty list, the loop. The result is the
  list handed to \<^verbatim>\<open>pd.DataFrame\<close>.
\<close>

definition sensitivity_analysis ::
    "(real \<Rightarrow> string) \<Rightarrow> (real \<Rightarrow> string) \<Rightarrow> MarginPosition \<Rightarrow> error + row list" where
  "sensitivity_analysis fixed2 grouped2 position =
     (case leverages position of
        Inl e \<Rightarrow> Inl e
      | Inr levs \<Rightarrow> sensitivity_loop fixed2 grouped2 position levs [])"

subsection \<open>The report as the specification words it\<close>



section \<open>Binary64 arithmetic\<close>

text \<open>
  A Python float is an IEEE 754 binary64 number, and every operation on floats returns
  the exact result rounded to the nearest binary64 number, ties to the even significand.
  This section models that arithmetic, for the statements that depend on the rounding.

  A finite binary64 number is \<open>m * 2 ^ e\<close> with an integer \<open>m\<close>, \<open>\<bar>m\<bar> < 2 ^ 53\<close>,
  and \<open>- 1074 \<le> e \<le> 971\<close>. Besides the finite numbers there are a negative zero, two
  infinities and NaN.

  \<open>Fin x\<close> is the finite number of value \<open>x\<close>, \<open>Fin 0\<close> the positive zero. Every
  operation below returns a number of the format; a field of a position is a literal, the
  result of an operation, or assumed to be of the format where a statement needs it.
\<close>

datatype double = Fin real | NegZero | PosInf | NegInf | NaN

text \<open>\<open>ilog2 x\<close> is the integer part of the binary logarithm of a positive \<open>x\<close>.\<close>

definition ilog2 :: "real \<Rightarrow> int" where
  "ilog2 x = (if 1 \<le> x then bitlen \<lfloor>x\<rfloor> - 1 else - bitlen (\<lceil>1 / x\<rceil> - 1))"

text \<open>The nearest integer, a tie going to the even one.\<close>

definition round_even :: "real \<Rightarrow> int" where
  "round_even y =
     (let f = \<lfloor>y\<rfloor>; d = y - of_int f
      in if d < 1 / 2 then f else if 1 / 2 < d then f + 1 else if even f then f else f + 1)"

text \<open>
  Rounding to 53 significant bits with the exponent bounded below (so that small results
  become subnormal) and not yet bounded above.
\<close>

definition round64 :: "real \<Rightarrow> real" where
  "round64 x =
     (if x = 0 then 0
      else let e = max (ilog2 \<bar>x\<bar> - 52) (- 1074)
           in sgn x * of_int (round_even (\<bar>x\<bar> / 2 powi e)) * 2 powi e)"

text \<open>
  The result of an operation whose exact value is \<open>x\<close>: rounded, replaced by an infinity
  when the rounded value is beyond the largest finite number, and with the sign
  \<open>neg\<close> when it is a zero.
\<close>

definition finish :: "bool \<Rightarrow> real \<Rightarrow> double" where
  "finish neg x =
     (let r = round64 x
      in if 2 ^ 1024 \<le> \<bar>r\<bar> then (if 0 < x then PosInf else NegInf)
         else if r = 0 then (if neg then NegZero else Fin 0)
         else Fin r)"

text \<open>A float literal of the program text, or a decimal typed into a widget.\<close>

definition literal :: "real \<Rightarrow> double" where
  "literal x = finish (x < 0) x"

fun val :: "double \<Rightarrow> real" where
  "val (Fin x) = x"
| "val d = 0"

fun is_neg :: "double \<Rightarrow> bool" where
  "is_neg (Fin x) = (x < 0)"
| "is_neg NegZero = True"
| "is_neg NegInf = True"
| "is_neg d = False"

fun is_finite :: "double \<Rightarrow> bool" where
  "is_finite (Fin x) = True"
| "is_finite NegZero = True"
| "is_finite d = False"

fun is_zero :: "double \<Rightarrow> bool" where
  "is_zero (Fin x) = (x = 0)"
| "is_zero NegZero = True"
| "is_zero d = False"

definition infinity :: "bool \<Rightarrow> double" where
  "infinity neg = (if neg then NegInf else PosInf)"

text \<open>\<^verbatim>\<open>a + b\<close>\<close>

definition fadd :: "double \<Rightarrow> double \<Rightarrow> double" where
  "fadd a b =
     (if a = NaN \<or> b = NaN then NaN
      else if is_finite a \<and> is_finite b then
        finish (if val a + val b = 0 then is_neg a \<and> is_neg b else val a + val b < 0)
          (val a + val b)
      else if is_finite b then a
      else if is_finite a then b
      else if a = b then a
      else NaN)"

fun fneg :: "double \<Rightarrow> double" where
  "fneg (Fin x) = (if x = 0 then NegZero else Fin (- x))"
| "fneg NegZero = Fin 0"
| "fneg PosInf = NegInf"
| "fneg NegInf = PosInf"
| "fneg NaN = NaN"

text \<open>\<^verbatim>\<open>a - b\<close>\<close>

definition fsub :: "double \<Rightarrow> double \<Rightarrow> double" where
  "fsub a b = fadd a (fneg b)"

text \<open>\<^verbatim>\<open>a * b\<close>\<close>

definition fmul :: "double \<Rightarrow> double \<Rightarrow> double" where
  "fmul a b =
     (if a = NaN \<or> b = NaN then NaN
      else if is_finite a \<and> is_finite b then
        finish (is_neg a \<noteq> is_neg b) (val a * val b)
      else if is_zero a \<or> is_zero b then NaN
      else infinity (is_neg a \<noteq> is_neg b))"

text \<open>
  \<^verbatim>\<open>a / b\<close>. Python tests the divisor first and raises \<^verbatim>\<open>ZeroDivisionError\<close> when it
  is a zero of either sign, whatever the dividend; \<open>fquot\<close> is the quotient otherwise.
\<close>

definition fquot :: "double \<Rightarrow> double \<Rightarrow> double" where
  "fquot a b =
     (if a = NaN \<or> b = NaN then NaN
      else if is_finite a \<and> is_finite b then
        finish (is_neg a \<noteq> is_neg b) (val a / val b)
      else if is_finite a then (if is_neg a \<noteq> is_neg b then NegZero else Fin 0)
      else if is_finite b then infinity (is_neg a \<noteq> is_neg b)
      else NaN)"

definition fdiv :: "double \<Rightarrow> double \<Rightarrow> error + double" where
  "fdiv a b = (if is_zero b then Inl ZeroDivisionError else Inr (fquot a b))"

text \<open>\<^verbatim>\<open>a <= b\<close>: false when either side is NaN; the two zeros are equal.\<close>

fun fle :: "double \<Rightarrow> double \<Rightarrow> bool" where
  "fle NaN b = False"
| "fle a NaN = False"
| "fle NegInf b = True"
| "fle a PosInf = True"
| "fle PosInf b = False"
| "fle a NegInf = False"
| "fle a b = (val a \<le> val b)"

subsection \<open>The dataclass and its properties in binary64\<close>

text \<open>
  The same class and the same eight properties as above, operator for operator, with
  the fields binary64 numbers and every operation rounded. An integer literal of the
  source (\<^verbatim>\<open>1\<close>, \<^verbatim>\<open>100\<close>, \<^verbatim>\<open>12\<close>, \<^verbatim>\<open>365\<close>) is converted to the float of the same value
  before the operation. Python evaluates \<^verbatim>\<open>a * b * c\<close> as \<^verbatim>\<open>(a * b) * c\<close> and
  \<^verbatim>\<open>x / c * 100\<close> as \<^verbatim>\<open>(x / c) * 100\<close>.
\<close>

record MarginPosition64 =
  amount64 :: double
  ltv64 :: double
  leverage64 :: double
  collateral_rate64 :: double
  borrow_rate64 :: double

definition MarginPosition64_init ::
    "double \<Rightarrow> double \<Rightarrow> double \<Rightarrow> double \<Rightarrow> double \<Rightarrow> error + MarginPosition64" where
  "MarginPosition64_init a l lev cr br =
     Inr \<lparr>amount64 = a, ltv64 = l, leverage64 = lev,
          collateral_rate64 = cr, borrow_rate64 = br\<rparr>"

text \<open>\<^verbatim>\<open>return 1 / (1 - self.ltv)\<close>\<close>

definition max_leverage64 :: "MarginPosition64 \<Rightarrow> error + double" where
  "max_leverage64 self = fdiv (Fin 1) (fsub (Fin 1) (ltv64 self))"

text \<open>\<^verbatim>\<open>return self.amount\<close>\<close>

definition collateral64 :: "MarginPosition64 \<Rightarrow> double" where
  "collateral64 self = amount64 self"

text \<open>\<^verbatim>\<open>return self.amount * (self.leverage - 1)\<close>\<close>

definition borrow64 :: "MarginPosition64 \<Rightarrow> double" where
  "borrow64 self = fmul (amount64 self) (fsub (leverage64 self) (Fin 1))"

text \<open>\<^verbatim>\<open>return self.collateral + self.borrow\<close>\<close>

definition deposit64 :: "MarginPosition64 \<Rightarrow> double" where
  "deposit64 self = fadd (collateral64 self) (borrow64 self)"

text \<open>
  \<^verbatim>\<open>
  return (self.collateral_rate * self.collateral * self.leverage -
          self.borrow_rate * self.borrow) / self.collateral * 100
  \<close>
\<close>

definition net_apy64 :: "MarginPosition64 \<Rightarrow> error + double" where
  "net_apy64 self =
     (case fdiv (fsub (fmul (fmul (collateral_rate64 self) (collateral64 self))
                            (leverage64 self))
                      (fmul (borrow_rate64 self) (borrow64 self)))
                (collateral64 self) of
        Inl e \<Rightarrow> Inl e
      | Inr q \<Rightarrow> Inr (fmul q (Fin 100)))"

text \<open>
  \<^verbatim>\<open>
  return (self.collateral_rate * self.collateral * self.leverage -
          self.borrow_rate * self.borrow)
  \<close>
\<close>

definition annual_earnings64 :: "MarginPosition64 \<Rightarrow> double" where
  "annual_earnings64 self =
     fsub (fmul (fmul (collateral_rate64 self) (collateral64 self)) (leverage64 self))
          (fmul (borrow_rate64 self) (borrow64 self))"

text \<open>\<^verbatim>\<open>return self.annual_earnings / 12\<close>\<close>

definition monthly_earnings64 :: "MarginPosition64 \<Rightarrow> error + double" where
  "monthly_earnings64 self = fdiv (annual_earnings64 self) (Fin 12)"

text \<open>\<^verbatim>\<open>return self.annual_earnings / 365\<close>\<close>

definition daily_earnings64 :: "MarginPosition64 \<Rightarrow> error + double" where
  "daily_earnings64 self = fdiv (annual_earnings64 self) (Fin 365)"

text \<open>
  The position of the worked example, amount 100, ltv 0.8, leverage 5 and the rates
  0.1376 and 0.1097, each decimal standing for the binary64 number nearest to it.
\<close>

definition default_position64 :: MarginPosition64 where
  "default_position64 =
     \<lparr>amount64 = Fin 100, ltv64 = literal 0.8, leverage64 = Fin 5,
      collateral_rate64 = literal 0.1376, borrow_rate64 = literal 0.1097\<rparr>"

subsection \<open>The sensitivity table in binary64\<close>

text \<open>
  The table of \<^verbatim>\<open>main\<close> once more, with the binary64 properties and the comparison
  \<^verbatim>\<open>lev <= position.max_leverage\<close> of floats. The two f-string conversions are again
  parameters, now from binary64 numbers to strings.
\<close>

definition sensitivity_row64 ::
    "(double \<Rightarrow> string) \<Rightarrow> (double \<Rightarrow> string) \<Rightarrow> double \<Rightarrow> MarginPosition64 \<Rightarrow> error + row" where
  "sensitivity_row64 fixed2 grouped2 lev test_pos =
     (case net_apy64 test_pos of
        Inl e \<Rightarrow> Inl e
      | Inr apy \<Rightarrow>
     (case monthly_earnings64 test_pos of
        Inl e \<Rightarrow> Inl e
      | Inr monthly \<Rightarrow>
     (case daily_earnings64 test_pos of
        Inl e \<Rightarrow> Inl e
      | Inr daily \<Rightarrow>
          Inr [(''Leverage'', fixed2 lev @ ''x''),
               (''Position Size'', ''$'' @ grouped2 (deposit64 test_pos)),
               (''Net APY'', fixed2 apy @ ''%''),
               (''Annual $'', ''$'' @ grouped2 (annual_earnings64 test_pos)),
               (''Monthly $'', ''$'' @ grouped2 monthly),
               (''Daily $'', ''$'' @ grouped2 daily)])))"

fun sensitivity_loop64 ::
    "(double \<Rightarrow> string) \<Rightarrow> (double \<Rightarrow> string) \<Rightarrow> MarginPosition64 \<Rightarrow> double list
       \<Rightarrow> row list \<Rightarrow> error + row list" where
  "sensitivity_loop64 fixed2 grouped2 position [] sensitivity_data = Inr sensitivity_data"
| "sensitivity_loop64 fixed2 grouped2 position (lev # rest) sensitivity_data =
     (case max_leverage64 position of
        Inl e \<Rightarrow> Inl e
      | Inr m \<Rightarrow>
          if fle lev m then
            (case MarginPosition64_init (amount64 position) (ltv64 position) lev
                    (collateral_rate64 position) (borrow_rate64 position) of
               Inl e \<Rightarrow> Inl e
             | Inr test_pos \<Rightarrow>
                 (case sensitivity_row64 fixed2 grouped2 lev test_pos of
                    Inl e \<Rightarrow> Inl e
                  | Inr r \<Rightarrow>
                      sensitivity_loop64 fixed2 grouped2 position rest (sensitivity_data @ [r])))
          else sensitivity_loop64 fixed2 grouped2 position rest sensitivity_data)"

text \<open>\<^verbatim>\<open>leverages = [1.0, 2.0, 3.0, 4.0, 5.0, position.max_leverage]\<close>\<close>

definition leverages64 :: "MarginPosition64 \<Rightarrow> error + double list" where
  "leverages64 position =
     (case max_leverage64 position of
        Inl e \<Rightarrow> Inl e
      | Inr m \<Rightarrow> Inr [Fin 1, Fin 2, Fin 3, Fin 4, Fin 5, m])"

definition sensitivity_analysis64 ::
    "(double \<Rightarrow> string) \<Rightarrow> (double \<Rightarrow> string) \<Rightarrow> MarginPosition64 \<Rightarrow> error + row list" where
  "sensitivity_analysis64 fixed2 grouped2 position =
     (case leverages64 position of
        Inl e \<Rightarrow> Inl e
      | Inr levs \<Rightarrow> sensitivity_loop64 fixed2 grouped2 position levs [])"

text \<open>
  The row of a position as the specification words it, the projection into leverage,
  deposit size, net APY and the three earnings horizons, for a position whose amount is
  not zero.
\<close>

definition projection64 ::
    "(double \<Rightarrow> string) \<Rightarrow> (double \<Rightarrow> string) \<Rightarrow> MarginPosition64 \<Rightarrow> row" where
  "projection64 fixed2 grouped2 p =
     [(''Leverage'', fixed2 (leverage64 p) @ ''x''),
      (''Position Size'', ''$'' @ grouped2 (deposit64 p)),
      (''Net APY'',
         fixed2 (fmul (fquot (annual_earnings64 p) (collateral64 p)) (Fin 100)) @ ''%''),
      (''Annual $'', ''$'' @ grouped2 (annual_earnings64 p)),
      (''Monthly $'', ''$'' @ grouped2 (fquot (annual_earnings64 p) (Fin 12))),
      (''Daily $'', ''$'' @ grouped2 (fquot (annual_earnings64 p) (Fin 365)))]"

subsection \<open>Binary64 positions and their exact values\<close>



text \<open>The position of the exact model that has the values of a binary64 position.\<close>

definition exact_position :: "MarginPosition64 \<Rightarrow> MarginPosition" where
  "exact_position p =
     \<lparr>amount = val (amount64 p), ltv = val (ltv64 p), leverage = val (leverage64 p),
      collateral_rate = val (collateral_rate64 p), borrow_rate = val (borrow_rate64 p)\<rparr>"

text \<open>
  The ranges in which the input widgets of \<^verbatim>\<open>main\<close> deliver the amount, the leverage
  and the two rates: the amount is at least 1, the leverage lies between 1 and
  \<^verbatim>\<open>1 / (1 - ltv)\<close> with ltv at most 0.95, hence below 20, and each rate is a percentage
  between 0 and 100 divided by 100. The amount widget has no upper limit; the bound
  \<open>2 ^ 1000\<close> keeps every product of the properties finite.
\<close>

definition widget_range :: "MarginPosition64 \<Rightarrow> bool" where
  "widget_range p =
     (is_finite (amount64 p) \<and> 1 \<le> val (amount64 p) \<and> val (amount64 p) \<le> 2 ^ 1000 \<and>
      is_finite (leverage64 p) \<and> 1 \<le> val (leverage64 p) \<and> val (leverage64 p) \<le> 20 \<and>
      is_finite (collateral_rate64 p) \<and>
        0 \<le> val (collateral_rate64 p) \<and> val (collateral_rate64 p) \<le> 1 \<and>
      is_finite (borrow_rate64 p) \<and>
        0 \<le> val (borrow_rate64 p) \<and> val (borrow_rate64 p) \<le> 1)"

section \<open>Helper facts\<close>

lemma py_div_ok: "b \<noteq> 0 \<Longrightarrow> py_div a b = Inr (a / b)"
  by (simp add: py_div_def)

lemma max_leverage_ok: "ltv p \<noteq> 1 \<Longrightarrow> max_leverage p = Inr (1 / (1 - ltv p))"
  by (simp add: max_leverage_def py_div_ok)

lemma net_apy_ok:
  "amount p \<noteq> 0 \<Longrightarrow> net_apy p = Inr (annual_earnings p / collateral p * 100)"
  by (simp add: net_apy_def annual_earnings_def collateral_def py_div_ok)

lemma monthly_earnings_ok: "monthly_earnings p = Inr (annual_earnings p / 12)"
  by (simp add: monthly_earnings_def py_div_ok)

lemma daily_earnings_ok: "daily_earnings p = Inr (annual_earnings p / 365)"
  by (simp add: daily_earnings_def py_div_ok)




lemma annual_earnings_linear:
  "annual_earnings (p\<lparr>leverage := l\<rparr>) =
     amount p * ((collateral_rate p - borrow_rate p) * l + borrow_rate p)"
  by (simp add: annual_earnings_def collateral_def borrow_def algebra_simps)

section \<open>Facts about binary64 rounding\<close>

lemma pow2_pos: "0 < (2::real) powi a"
  by (simp add: zero_less_power_int)

lemma pow2_mono: "a \<le> b \<Longrightarrow> (2::real) powi a \<le> 2 powi b"
  by (rule power_int_increasing) simp_all

lemma pow2_less_cancel:
  assumes "(2::real) powi a < 2 powi b"
  shows "a < b"
proof (rule ccontr)
  assume "\<not> a < b"
  then have "b \<le> a" by simp
  then have "(2::real) powi b \<le> 2 powi a" by (rule pow2_mono)
  with assms show False by simp
qed

lemma ilog2_bounds:
  assumes "0 < x"
  shows "2 powi (ilog2 x) \<le> x \<and> x < 2 powi (ilog2 x + 1)"
proof (cases "1 \<le> x")
  case True
  define n where "n = \<lfloor>x\<rfloor>"
  have n: "0 < n" using True by (simp add: n_def)
  define b where "b = bitlen n"
  have b: "2 ^ nat (b - 1) \<le> n" "n < 2 ^ nat b"
    using bitlen_bounds [OF n] by (simp_all add: b_def)
  have b1: "1 \<le> b" using n by (simp add: b_def bitlen_alt_def)
  have il: "ilog2 x = b - 1" using True by (simp add: ilog2_def b_def n_def)
  have "n + 1 \<le> 2 ^ nat b" using b(2) by simp
  then have "real_of_int (n + 1) \<le> real_of_int (2 ^ nat b)" by (rule of_int_le_iff [THEN iffD2])
  then have "real_of_int (n + 1) \<le> 2 ^ nat b" by simp
  moreover have "x < real_of_int (n + 1)" by (simp add: n_def)
  ultimately have up: "x < 2 ^ nat b" by (rule less_le_trans [rotated])
  have "real_of_int (2 ^ nat (b - 1)) \<le> real_of_int n" using b(1) by (rule of_int_le_iff [THEN iffD2])
  then have "2 ^ nat (b - 1) \<le> real_of_int n" by simp
  moreover have "real_of_int n \<le> x" by (simp add: n_def)
  ultimately have lo: "2 ^ nat (b - 1) \<le> x" by (rule order_trans)
  show ?thesis using lo up b1 by (simp add: il power_int_nonneg_exp)
next
  case False
  define y where "y = 1 / x"
  have y1: "1 < y" using False assms by (simp add: y_def)
  have xy: "x = 1 / y" by (simp add: y_def)
  define n where "n = \<lceil>y\<rceil> - 1"
  have n: "0 < n" using y1 by (simp add: n_def less_ceiling_iff)
  define b where "b = bitlen n"
  have b: "2 ^ nat (b - 1) \<le> n" "n < 2 ^ nat b"
    using bitlen_bounds [OF n] by (simp_all add: b_def)
  have b1: "1 \<le> b" using n by (simp add: b_def bitlen_alt_def)
  have il: "ilog2 x = - b" using False by (simp add: ilog2_def b_def n_def y_def)
  have "n + 1 \<le> 2 ^ nat b" using b(2) by simp
  then have "real_of_int (n + 1) \<le> real_of_int (2 ^ nat b)" by (rule of_int_le_iff [THEN iffD2])
  then have "real_of_int (n + 1) \<le> 2 ^ nat b" by simp
  moreover have "y \<le> real_of_int (n + 1)" by (simp add: n_def)
  ultimately have up: "y \<le> 2 ^ nat b" by (rule order_trans [rotated])
  have "real_of_int (2 ^ nat (b - 1)) \<le> real_of_int n" using b(1) by (rule of_int_le_iff [THEN iffD2])
  then have "2 ^ nat (b - 1) \<le> real_of_int n" by simp
  moreover have "real_of_int n < y" by (simp add: n_def) linarith
  ultimately have lo: "2 ^ nat (b - 1) < y" by (rule le_less_trans)
  have p1: "2 powi (- b) = 1 / (2::real) ^ nat b"
    using b1 by (simp add: power_int_minus_divide power_int_nonneg_exp)
  have p2: "2 powi (- b + 1) = 1 / (2::real) ^ nat (b - 1)"
  proof -
    have "- b + 1 = - (b - 1)" by simp
    then show ?thesis using b1 by (simp only: power_int_minus_divide) (simp add: power_int_nonneg_exp)
  qed
  have "1 / 2 ^ nat b \<le> 1 / y" using up y1 by (simp add: frac_le)
  then have A: "1 / 2 ^ nat b \<le> x" by (simp only: xy)
  have "1 / y < 1 / 2 ^ nat (b - 1)" using lo by (simp add: frac_less2)
  then have B: "x < 1 / 2 ^ nat (b - 1)" by (simp only: xy)
  show ?thesis unfolding il p1 p2 using A B by (rule conjI)
qed

lemma ilog2_le:
  assumes "0 < x" and "x < 2 powi (k + 1)"
  shows "ilog2 x \<le> k"
proof -
  have "(2::real) powi (ilog2 x) < 2 powi (k + 1)"
    using ilog2_bounds [OF assms(1)] assms(2) by linarith
  then have "ilog2 x < k + 1" by (rule pow2_less_cancel)
  then show ?thesis by simp
qed

lemma ilog2_ge:
  assumes "0 < x" and "2 powi k \<le> x"
  shows "k \<le> ilog2 x"
proof -
  have "(2::real) powi k < 2 powi (ilog2 x + 1)"
    using ilog2_bounds [OF assms(1)] assms(2) by linarith
  then have "k < ilog2 x + 1" by (rule pow2_less_cancel)
  then show ?thesis by simp
qed


lemma round_even_le:
  assumes "y \<le> of_int n"
  shows "round_even y \<le> n"
proof -
  have "\<lfloor>y\<rfloor> \<le> n" using assms by (simp add: floor_le_iff)
  show ?thesis
  proof (cases "y = of_int \<lfloor>y\<rfloor>")
    case True
    then show ?thesis using \<open>\<lfloor>y\<rfloor> \<le> n\<close> by (simp add: round_even_def)
  next
    case False
    then have "of_int \<lfloor>y\<rfloor> < y" by (metis of_int_floor_le order_less_le)
    then have "\<lfloor>y\<rfloor> < n" using assms by (metis less_le_trans of_int_less_iff)
    then show ?thesis by (simp add: round_even_def Let_def)
  qed
qed

lemma round_even_ge:
  assumes "of_int n \<le> y"
  shows "n \<le> round_even y"
proof -
  have "n \<le> \<lfloor>y\<rfloor>" using assms by (simp add: le_floor_iff)
  then show ?thesis by (simp add: round_even_def Let_def)
qed

lemma round64_minus: "round64 (- x) = - round64 x"
  by (simp add: round64_def Let_def)

lemma round64_pos_unfold:
  assumes "0 < x"
  shows "round64 x =
           of_int (round_even (x / 2 powi (max (ilog2 x - 52) (- 1074))))
             * 2 powi (max (ilog2 x - 52) (- 1074))"
  using assms by (simp add: round64_def Let_def)

lemma significand_less:
  assumes "0 < x" and "ilog2 x - 52 \<le> e"
  shows "x / 2 powi e < 2 ^ 53"
proof -
  have "x < 2 powi (ilog2 x + 1)" using ilog2_bounds [OF assms(1)] by simp
  also have "\<dots> \<le> 2 powi (e + 53)" using assms(2) by (intro pow2_mono) simp
  also have "\<dots> = 2 ^ 53 * 2 powi e" by (simp add: power_int_add)
  finally show ?thesis using pow2_pos [of e] by (simp add: pos_divide_less_eq)
qed

lemma significand_ge:
  assumes "0 < x" and "e \<le> ilog2 x - 52"
  shows "2 ^ 52 \<le> x / 2 powi e"
proof -
  have "(2::real) ^ 52 * 2 powi e = 2 powi (e + 52)" by (simp add: power_int_add)
  also have "\<dots> \<le> 2 powi (ilog2 x)" using assms(2) by (intro pow2_mono) simp
  also have "\<dots> \<le> x" using ilog2_bounds [OF assms(1)] by simp
  finally show ?thesis using pow2_pos [of e] by (simp add: pos_le_divide_eq)
qed




lemma round64_normal:
  assumes "0 < y" and "- 1022 \<le> ilog2 y"
  shows "2 powi (ilog2 y) \<le> round64 y \<and> round64 y \<le> 2 powi (ilog2 y + 1)"
proof -
  define E where "E = ilog2 y - 52"
  define M where "M = round_even (y / 2 powi E)"
  have E: "max (ilog2 y - 52) (- 1074) = E" using assms(2) by (simp add: E_def)
  have r: "round64 y = of_int M * 2 powi E"
    using assms(1) by (simp add: round64_pos_unfold E M_def)
  have "y / 2 powi E < 2 ^ 53" using assms(1) by (intro significand_less) (simp_all add: E_def)
  then have "y / 2 powi E \<le> of_int (2 ^ 53)" by simp
  then have "M \<le> 2 ^ 53" unfolding M_def by (rule round_even_le)
  then have "real_of_int M \<le> real_of_int (2 ^ 53)" by (rule of_int_le_iff [THEN iffD2])
  then have up: "real_of_int M \<le> 2 ^ 53" by simp
  have "2 ^ 52 \<le> y / 2 powi E" using assms(1) by (intro significand_ge) (simp_all add: E_def)
  then have "of_int (2 ^ 52) \<le> y / 2 powi E" by simp
  then have "2 ^ 52 \<le> M" unfolding M_def by (rule round_even_ge)
  then have "real_of_int (2 ^ 52) \<le> real_of_int M" by (rule of_int_le_iff [THEN iffD2])
  then have lo: "2 ^ 52 \<le> real_of_int M" by simp
  have "(2::real) powi (E + 52) = 2 powi E * 2 powi 52" by (rule power_int_add) simp
  moreover have "E + 52 = ilog2 y" by (simp add: E_def)
  ultimately have p1: "2 powi (ilog2 y) = (2::real) ^ 52 * 2 powi E" by simp
  have "(2::real) powi (E + 53) = 2 powi E * 2 powi 53" by (rule power_int_add) simp
  moreover have "E + 53 = ilog2 y + 1" by (simp add: E_def)
  ultimately have p2: "2 powi (ilog2 y + 1) = (2::real) ^ 53 * 2 powi E" by simp
  show ?thesis unfolding r p1 p2 using lo up pow2_pos [of E] by simp
qed

lemma round64_zero: "round64 0 = 0"
  by (simp add: round64_def)








lemma fle_refl: "m \<noteq> NaN \<Longrightarrow> fle m m"
  by (cases m) simp_all

lemma fquot_not_NaN: "is_finite a \<Longrightarrow> is_finite b \<Longrightarrow> a \<noteq> NaN \<Longrightarrow> b \<noteq> NaN \<Longrightarrow> fquot a b \<noteq> NaN"
  by (simp add: fquot_def finish_def Let_def)

lemma below_one:
  assumes "0 < l" and "l < 1" and "round64 l = l"
  shows "2 powi (- 53) \<le> 1 - l"
proof (cases "l < 1 / 2")
  case True
  have "(2::real) powi (- 53) \<le> 2 powi (- 1)" by (rule pow2_mono) simp
  also have "\<dots> = 1 / 2" by simp
  finally show ?thesis using True by simp
next
  case False
  then have half: "2 powi (- 1) \<le> l" by simp
  have "ilog2 l \<le> - 1" using assms(1,2) by (intro ilog2_le) simp_all
  moreover have "- 1 \<le> ilog2 l" using assms(1) half by (rule ilog2_ge)
  ultimately have il: "ilog2 l = - 1" by simp
  define M where "M = round_even (l / 2 powi (- 53))"
  have "round64 l = of_int M * 2 powi (- 53)"
    using assms(1) by (simp add: round64_pos_unfold il M_def)
  then have l: "l = of_int M * 2 powi (- 53)" using assms(3) by simp
  then have "real_of_int M * 2 powi (- 53) < 1" using assms(2) by simp
  then have "real_of_int M < 2 ^ 53" by (simp add: power_int_minus_divide)
  then have "M < 2 ^ 53" by (metis of_int_less_numeral_power_cancel_iff)
  then have "M \<le> 2 ^ 53 - 1" by simp
  then have "real_of_int M \<le> real_of_int (2 ^ 53 - 1)" by (rule of_int_le_iff [THEN iffD2])
  then have "real_of_int M \<le> 2 ^ 53 - 1" by simp
  then have "l \<le> (2 ^ 53 - 1) * 2 powi (- 53)"
    unfolding l using pow2_pos [of "- 53"] by (intro mult_right_mono) simp_all
  then show ?thesis by (simp add: power_int_minus_divide)
qed

lemma one_minus_ltv:
  assumes "0 < l" and "l < 1" and "round64 l = l"
  shows "\<exists>d. fsub (Fin 1) (Fin l) = Fin d \<and> 0 < d"
proof -
  define y where "y = 1 - l"
  have y: "0 < y" "y < 1" using assms by (simp_all add: y_def)
  have lo: "2 powi (- 53) \<le> y" using below_one [OF assms] by (simp add: y_def)
  have il: "- 53 \<le> ilog2 y" using y(1) lo by (rule ilog2_ge)
  have iu: "ilog2 y \<le> - 1" using y by (intro ilog2_le) simp_all
  have n: "2 powi (ilog2 y) \<le> round64 y \<and> round64 y \<le> 2 powi (ilog2 y + 1)"
    using y(1) il by (intro round64_normal) simp_all
  have "(2::real) powi (ilog2 y + 1) \<le> 2 powi 0" using iu by (intro pow2_mono) simp
  then have r1: "round64 y \<le> 1" using n by simp
  have r0: "0 < round64 y" using n pow2_pos [of "ilog2 y"] by linarith
  have "\<bar>round64 y\<bar> < 2 ^ 1024"
  proof -
    have "(1::real) < 2 ^ 1024" by simp
    then show ?thesis using r0 r1 by linarith
  qed
  then have "finish (1 + - l < 0) (1 + - l) = Fin (round64 y)"
    using r0 by (simp add: finish_def Let_def y_def)
  then have "fsub (Fin 1) (Fin l) = Fin (round64 y)"
    using assms(1,2) by (simp add: fsub_def fadd_def)
  then show ?thesis using r0 by blast
qed

section \<open>Rounding error\<close>

lemma round_even_error: "\<bar>real_of_int (round_even y) - y\<bar> \<le> 1 / 2"
proof -
  have "real_of_int \<lfloor>y\<rfloor> \<le> y" "y < real_of_int \<lfloor>y\<rfloor> + 1" by linarith+
  then show ?thesis by (auto simp add: round_even_def Let_def)
qed

lemma round64_error_pos:
  assumes "0 < x"
  shows "\<bar>round64 x - x\<bar> \<le> x / 2 ^ 53 + 1 / 2 ^ 1075"
proof -
  define E where "E = max (ilog2 x - 52) (- 1074)"
  define y where "y = x / 2 powi E"
  define M where "M = round_even y"
  have r: "round64 x = of_int M * 2 powi E"
    using assms by (simp add: round64_pos_unfold E_def M_def y_def)
  have x: "x = y * 2 powi E" using pow2_pos [of E] by (simp add: y_def)
  have "round64 x - x = of_int M * 2 powi E - y * 2 powi E" using r x by linarith
  also have "\<dots> = (of_int M - y) * 2 powi E" by (simp add: algebra_simps)
  finally have "round64 x - x = (of_int M - y) * 2 powi E" .
  then have "\<bar>round64 x - x\<bar> = \<bar>of_int M - y\<bar> * 2 powi E"
    using pow2_pos [of E] by (simp add: abs_mult)
  also have "\<dots> \<le> 1 / 2 * 2 powi E"
    using round_even_error [of y] pow2_pos [of E] unfolding M_def
    by (intro mult_right_mono) simp_all
  finally have half: "\<bar>round64 x - x\<bar> \<le> 2 powi E / 2" by simp
  show ?thesis
  proof (cases "- 1074 \<le> ilog2 x - 52")
    case True
    then have E: "E = ilog2 x - 52" by (simp add: E_def)
    have "(2::real) powi (E + 52) = 2 powi E * 2 powi 52" by (rule power_int_add) simp
    moreover have "E + 52 = ilog2 x" by (simp add: E)
    ultimately have "2 powi E * 2 ^ 52 = (2::real) powi (ilog2 x)" by simp
    also have "\<dots> \<le> x" using ilog2_bounds [OF assms] by simp
    finally have "2 powi E / 2 \<le> x / 2 ^ 53" by simp
    then have "2 powi E / 2 \<le> x / 2 ^ 53 + 1 / 2 ^ 1075" by (simp add: add_increasing2)
    with half show ?thesis by (rule order_trans)
  next
    case False
    then have "E = - 1074" by (simp add: E_def)
    then have "2 powi E / 2 = (1::real) / 2 ^ 1075" by (simp add: power_int_minus_divide)
    moreover have "(1::real) / 2 ^ 1075 \<le> x / 2 ^ 53 + 1 / 2 ^ 1075" using assms by simp
    ultimately have "2 powi E / 2 \<le> x / 2 ^ 53 + 1 / 2 ^ 1075" by simp
    with half show ?thesis by (rule order_trans)
  qed
qed

lemma round64_error: "\<bar>round64 x - x\<bar> \<le> \<bar>x\<bar> / 2 ^ 53 + 1 / 2 ^ 1075"
proof -
  consider "x = 0" | "0 < x" | "x < 0" by linarith
  then show ?thesis
  proof cases
    case 1
    then show ?thesis by (simp add: round64_zero)
  next
    case 2
    then show ?thesis using round64_error_pos [of x] by simp
  next
    case 3
    then have "\<bar>round64 (- x) - (- x)\<bar> \<le> (- x) / 2 ^ 53 + 1 / 2 ^ 1075"
      by (intro round64_error_pos) simp
    then show ?thesis using 3 by (simp add: round64_minus abs_minus_commute)
  qed
qed

text \<open>
  The result of an operation whose exact value is at most \<open>B\<close> in size, for a bound
  \<open>B\<close> of at least 1 and far below the overflow threshold: it is finite and within
  \<open>B\<close> times \<open>2 / 2 ^ 53\<close> of the exact value.
\<close>

lemma finish_error:
  assumes "\<bar>x\<bar> \<le> B" and "1 \<le> B" and "B \<le> 2 ^ 1020"
  shows "is_finite (finish s x) \<and> \<bar>val (finish s x) - x\<bar> \<le> 2 * B / 2 ^ 53"
proof -
  have e: "\<bar>round64 x - x\<bar> \<le> \<bar>x\<bar> / 2 ^ 53 + 1 / 2 ^ 1075" by (rule round64_error)
  have "\<bar>x\<bar> / 2 ^ 53 \<le> B / 2 ^ 53" using assms(1) by (simp add: divide_right_mono)
  moreover have "(1::real) / 2 ^ 1075 \<le> 1 / 2 ^ 53" by simp
  moreover have "(1::real) / 2 ^ 53 \<le> B / 2 ^ 53" using assms(2) by (simp add: divide_right_mono)
  ultimately have err: "\<bar>round64 x - x\<bar> \<le> 2 * B / 2 ^ 53" using e by linarith
  have "2 * B / 2 ^ 53 \<le> B" using assms(2) by simp
  then have "\<bar>round64 x\<bar> \<le> 2 * B" using err assms(1) by linarith
  also have "2 * B \<le> 2 * 2 ^ 1020" using assms(3) by simp
  also have "\<dots> < (2::real) ^ 1024" by simp
  finally have small: "\<not> 2 ^ 1024 \<le> \<bar>round64 x\<bar>" by simp
  show ?thesis
  proof (cases "round64 x = 0")
    case True
    then show ?thesis using err by (simp add: finish_def)
  next
    case False
    then show ?thesis using err small by (simp add: finish_def Let_def)
  qed
qed

lemma is_finite_not_NaN: "is_finite a \<Longrightarrow> a \<noteq> NaN"
  by (cases a) simp_all

lemma fmul_error:
  assumes "is_finite a" and "is_finite b"
    and "\<bar>val a * val b\<bar> \<le> B" and "1 \<le> B" and "B \<le> 2 ^ 1020"
  shows "is_finite (fmul a b) \<and> \<bar>val (fmul a b) - val a * val b\<bar> \<le> 2 * B / 2 ^ 53"
proof -
  have "fmul a b = finish (is_neg a \<noteq> is_neg b) (val a * val b)"
    using assms(1,2) by (simp add: fmul_def is_finite_not_NaN)
  then show ?thesis using finish_error [OF assms(3,4,5)] by simp
qed

lemma fneg_val: "is_finite b \<Longrightarrow> is_finite (fneg b) \<and> val (fneg b) = - val b"
  by (cases b) simp_all

lemma fsub_error:
  assumes "is_finite a" and "is_finite b"
    and "\<bar>val a - val b\<bar> \<le> B" and "1 \<le> B" and "B \<le> 2 ^ 1020"
  shows "is_finite (fsub a b) \<and> \<bar>val (fsub a b) - (val a - val b)\<bar> \<le> 2 * B / 2 ^ 53"
proof -
  have n: "is_finite (fneg b)" "val (fneg b) = - val b" using fneg_val [OF assms(2)] by simp_all
  have "\<exists>s. fsub a b = finish s (val a - val b)"
    using assms(1) n by (auto simp add: fsub_def fadd_def is_finite_not_NaN)
  then show ?thesis using finish_error [OF assms(3,4,5)] by auto
qed

lemma fquot_error:
  assumes "is_finite a" and "is_finite b"
    and "\<bar>val a / val b\<bar> \<le> B" and "1 \<le> B" and "B \<le> 2 ^ 1020"
  shows "is_finite (fquot a b) \<and> \<bar>val (fquot a b) - val a / val b\<bar> \<le> 2 * B / 2 ^ 53"
proof -
  have "fquot a b = finish (is_neg a \<noteq> is_neg b) (val a / val b)"
    using assms(1,2) by (simp add: fquot_def is_finite_not_NaN)
  then show ?thesis using finish_error [OF assms(3,4,5)] by simp
qed

lemma prod_near:
  fixes x X y e k :: real
  assumes "\<bar>x - X\<bar> \<le> e" and "\<bar>y\<bar> \<le> k"
  shows "\<bar>x * y - X * y\<bar> \<le> e * k"
proof -
  have "x * y - X * y = (x - X) * y" by (simp add: algebra_simps)
  then have "\<bar>x * y - X * y\<bar> = \<bar>x - X\<bar> * \<bar>y\<bar>" by (simp add: abs_mult)
  also have "\<dots> \<le> e * k" using assms by (intro mult_mono) simp_all
  finally show ?thesis .
qed

lemma prod_bound:
  fixes x y a b :: real
  assumes "\<bar>x\<bar> \<le> a" and "\<bar>y\<bar> \<le> b"
  shows "\<bar>x * y\<bar> \<le> a * b"
proof -
  have "\<bar>x * y\<bar> = \<bar>x\<bar> * \<bar>y\<bar>" by (simp add: abs_mult)
  also have "\<dots> \<le> a * b" using assms by (intro mult_mono) simp_all
  finally show ?thesis .
qed

section \<open>Evaluation in binary64\<close>

lemmas binary64_eval =
  finish_def round64_def ilog2_def round_even_def Let_def compute_bitlen
  literal_def fadd_def fsub_def fmul_def fquot_def fdiv_def infinity_def

lemma default_fields:
  "literal 0.8 = Fin (3602879701896397 / 2 ^ 52)"
  "literal 0.1376 = Fin (2478781234904721 / 2 ^ 54)"
  "literal 0.1097 = Fin (7904718065960695 / 2 ^ 56)"
  by (simp_all add: binary64_eval)

lemma default_max_leverage64:
  "max_leverage64 default_position64 = Inr (Fin (5629499534213121 / 2 ^ 50))"
  by (simp add: max_leverage64_def default_position64_def default_fields)
     (simp add: binary64_eval)


lemmas accessors64 =
  max_leverage64_def collateral64_def borrow64_def deposit64_def net_apy64_def
  annual_earnings64_def monthly_earnings64_def daily_earnings64_def





lemma default_rates64:
  "fdiv (literal 13.76) (Fin 100) = Inr (literal 0.1376)"
  "fdiv (literal 10.97) (Fin 100) = Inr (literal 0.1097)"
  by (simp_all add: binary64_eval)

lemma default_widget_range:
  "widget_range (default_position64\<lparr>leverage64 := Fin 1\<rparr>)"
  "widget_range (default_position64\<lparr>leverage64 := Fin 2\<rparr>)"
  "widget_range (default_position64\<lparr>borrow_rate64 := literal 0.2, leverage64 := Fin 1\<rparr>)"
  "widget_range (default_position64\<lparr>borrow_rate64 := literal 0.2, leverage64 := Fin 2\<rparr>)"
  "widget_range (default_position64\<lparr>amount64 := Fin 100\<rparr>)"
  "widget_range (default_position64\<lparr>amount64 := Fin 7\<rparr>)"
  by (simp_all add: widget_range_def default_position64_def binary64_eval)

section \<open>The binary64 table\<close>

lemma same_fields_update64:
  "\<lparr>amount64 = amount64 p, ltv64 = ltv64 p, leverage64 = L,
    collateral_rate64 = collateral_rate64 p, borrow_rate64 = borrow_rate64 p\<rparr>
     = p\<lparr>leverage64 := L\<rparr>"
  by (cases p) simp

lemma sensitivity_row64_ok:
  assumes "\<not> is_zero (amount64 test_pos)" and "leverage64 test_pos = lev"
  shows "sensitivity_row64 f g lev test_pos = Inr (projection64 f g test_pos)"
  using assms
  by (simp add: sensitivity_row64_def projection64_def net_apy64_def monthly_earnings64_def
      daily_earnings64_def annual_earnings64_def collateral64_def fdiv_def)

lemma sensitivity_loop64_acc:
  assumes "\<not> is_zero (amount64 base)" and "max_leverage64 base = Inr m"
  shows "sensitivity_loop64 f g base cands acc =
           Inr (acc @ map (\<lambda>L. projection64 f g (base\<lparr>leverage64 := L\<rparr>))
                        (filter (\<lambda>L. fle L m) cands))"
proof (induction cands arbitrary: acc)
  case Nil
  show ?case by simp
next
  case (Cons lev rest)
  have r: "sensitivity_row64 f g lev (base\<lparr>leverage64 := lev\<rparr>)
             = Inr (projection64 f g (base\<lparr>leverage64 := lev\<rparr>))"
    using assms(1) by (intro sensitivity_row64_ok) simp_all
  show ?case
  proof (cases "fle lev m")
    case True
    then show ?thesis
      by (simp add: assms(2) MarginPosition64_init_def same_fields_update64 r Cons.IH)
  next
    case False
    then show ?thesis by (simp add: assms(2) Cons.IH)
  qed
qed

lemma max_leverage64_ok:
  assumes "ltv64 p = Fin l" and "0 < l" and "l < 1" and "round64 l = l"
  shows "\<exists>m. max_leverage64 p = Inr m \<and> m \<noteq> NaN"
proof -
  obtain d where d: "fsub (Fin 1) (Fin l) = Fin d" "0 < d"
    using one_minus_ltv [OF assms(2-4)] by blast
  have "max_leverage64 p = Inr (fquot (Fin 1) (Fin d))"
    using d by (simp add: max_leverage64_def assms(1) fdiv_def)
  moreover have "fquot (Fin 1) (Fin d) \<noteq> NaN"
    by (rule fquot_not_NaN) simp_all
  ultimately show ?thesis by blast
qed

text \<open>
  The comparison of the loop is a comparison of computed floats. At ltv 0.95 the computed
  bound is 19.999999999999982 and a candidate 20 is above it; at ltv 0.21 the expression
  \<^verbatim>\<open>1 + ltv / (1 - ltv)\<close>, equal to the bound in exact arithmetic, evaluates to the float
  next above \<^verbatim>\<open>1 / (1 - ltv)\<close>.
\<close>

lemma boundary_examples64:
  "max_leverage64 (default_position64\<lparr>ltv64 := literal 0.95\<rparr>)
     = Inr (Fin (5629499534213115 / 2 ^ 48))"
  "\<not> fle (Fin 20) (Fin (5629499534213115 / 2 ^ 48))"
  "max_leverage64 (default_position64\<lparr>ltv64 := literal 0.21\<rparr>)
     = Inr (Fin (5700759021987969 / 2 ^ 52))"
  "fadd (Fin 1) (fquot (literal 0.21) (fsub (Fin 1) (literal 0.21)))
     = Fin (2850379510993985 / 2 ^ 51)"
  "\<not> fle (Fin (2850379510993985 / 2 ^ 51)) (Fin (5700759021987969 / 2 ^ 52))"
  by (simp_all add: max_leverage64_def default_position64_def binary64_eval)

section \<open>Accumulated rounding error of the earnings\<close>

lemma annual_earnings64_error:
  assumes "widget_range p"
  shows "is_finite (annual_earnings64 p) \<and>
         \<bar>val (annual_earnings64 p) - annual_earnings (exact_position p)\<bar>
           \<le> 320 * val (amount64 p) / 2 ^ 53 \<and>
         \<bar>annual_earnings (exact_position p)\<bar> \<le> 20 * val (amount64 p)"
proof -
  define A where "A = val (amount64 p)"
  define L where "L = val (leverage64 p)"
  define c where "c = val (collateral_rate64 p)"
  define d where "d = val (borrow_rate64 p)"
  define w where "w = A / 2 ^ 53"
  have fin: "is_finite (amount64 p)" "is_finite (leverage64 p)"
    "is_finite (collateral_rate64 p)" "is_finite (borrow_rate64 p)"
    using assms by (simp_all add: widget_range_def)
  have A: "1 \<le> A" "A \<le> 2 ^ 1000"
    and L: "1 \<le> L" "L \<le> 20"
    and c: "0 \<le> c" "c \<le> 1"
    and d: "0 \<le> d" "d \<le> 1"
    using assms by (simp_all add: widget_range_def A_def L_def c_def d_def)
  have w: "0 \<le> w" "1000 * w \<le> A" using A(1) by (simp_all add: w_def)
  have big: "64 * A \<le> 2 ^ 1020"
  proof -
    have "64 * A \<le> 64 * 2 ^ 1000" using A(2) by simp
    also have "\<dots> \<le> (2::real) ^ 1020" by simp
    finally show ?thesis .
  qed

  \<comment> \<open>\<^verbatim>\<open>self.leverage - 1\<close>\<close>
  define S where "S = fsub (leverage64 p) (Fin 1)"
  have "is_finite S \<and> \<bar>val S - (L - 1)\<bar> \<le> 2 * 19 / 2 ^ 53"
    unfolding S_def using L fsub_error [OF fin(2), of "Fin 1" 19] by (simp add: L_def)
  then have S: "is_finite S" "\<bar>val S - (L - 1)\<bar> \<le> 38 / 2 ^ 53" by simp_all
  have "(38::real) / 2 ^ 53 \<le> 1" by simp
  then have Sb: "\<bar>val S\<bar> \<le> 20" using S(2) L by linarith

  \<comment> \<open>\<^verbatim>\<open>self.amount * (self.leverage - 1)\<close>\<close>
  define Bo where "Bo = fmul (amount64 p) S"
  have "\<bar>A * val S\<bar> \<le> A * 20" using A(1) Sb by (intro prod_bound) simp_all
  then have b1: "\<bar>val (amount64 p) * val S\<bar> \<le> 20 * A" by (simp add: A_def)
  have "is_finite Bo \<and> \<bar>val Bo - val (amount64 p) * val S\<bar> \<le> 2 * (20 * A) / 2 ^ 53"
    unfolding Bo_def using A(1) big by (intro fmul_error [OF fin(1) S(1) b1]) simp_all
  then have Bo: "is_finite Bo" "\<bar>val Bo - A * val S\<bar> \<le> 40 * w"
    by (simp_all add: A_def w_def)
  have "\<bar>val S * A - (L - 1) * A\<bar> \<le> 38 / 2 ^ 53 * A"
    using S(2) A(1) by (intro prod_near) simp_all
  then have b2: "\<bar>A * val S - A * (L - 1)\<bar> \<le> 38 * w" by (simp add: w_def mult.commute)
  have Be: "\<bar>val Bo - A * (L - 1)\<bar> \<le> 78 * w" using Bo(2) b2 by linarith
  have "\<bar>A * (L - 1)\<bar> \<le> A * 19" using A(1) L by (intro prod_bound) simp_all
  then have Bx: "\<bar>A * (L - 1)\<bar> \<le> 19 * A" by simp
  have Bb: "\<bar>val Bo\<bar> \<le> 20 * A" using Be Bx w by linarith

  \<comment> \<open>\<^verbatim>\<open>self.collateral_rate * self.collateral\<close>\<close>
  define T1 where "T1 = fmul (collateral_rate64 p) (amount64 p)"
  have "\<bar>c * A\<bar> \<le> 1 * A" using c A(1) by (intro prod_bound) simp_all
  then have t1x: "\<bar>c * A\<bar> \<le> A" by simp
  then have "\<bar>val (collateral_rate64 p) * val (amount64 p)\<bar> \<le> A" by (simp add: c_def A_def)
  then have "is_finite T1 \<and>
      \<bar>val T1 - val (collateral_rate64 p) * val (amount64 p)\<bar> \<le> 2 * A / 2 ^ 53"
    unfolding T1_def using A(1) big by (intro fmul_error [OF fin(3) fin(1)]) simp_all
  then have T1: "is_finite T1" "\<bar>val T1 - c * A\<bar> \<le> 2 * w"
    by (simp_all add: c_def A_def w_def)
  have T1b: "\<bar>val T1\<bar> \<le> 2 * A" using T1(2) t1x w by linarith

  \<comment> \<open>\<^verbatim>\<open>... * self.leverage\<close>\<close>
  define T2 where "T2 = fmul T1 (leverage64 p)"
  have "\<bar>val T1 * L\<bar> \<le> 2 * A * 20" using T1b L by (intro prod_bound) simp_all
  then have "\<bar>val T1 * val (leverage64 p)\<bar> \<le> 40 * A" by (simp add: L_def)
  then have "is_finite T2 \<and> \<bar>val T2 - val T1 * val (leverage64 p)\<bar> \<le> 2 * (40 * A) / 2 ^ 53"
    unfolding T2_def using A(1) big by (intro fmul_error [OF T1(1) fin(2)]) simp_all
  then have T2: "is_finite T2" "\<bar>val T2 - val T1 * L\<bar> \<le> 80 * w"
    by (simp_all add: L_def w_def)
  have "\<bar>val T1 * L - c * A * L\<bar> \<le> 2 * w * 20" using T1(2) L by (intro prod_near) simp_all
  then have T2e: "\<bar>val T2 - c * A * L\<bar> \<le> 120 * w" using T2(2) by linarith
  have "\<bar>c * A * L\<bar> \<le> A * 20" using t1x L by (intro prod_bound) simp_all
  then have T2x: "\<bar>c * A * L\<bar> \<le> 20 * A" by simp
  have T2b: "\<bar>val T2\<bar> \<le> 21 * A" using T2e T2x w by linarith

  \<comment> \<open>\<^verbatim>\<open>self.borrow_rate * self.borrow\<close>\<close>
  define T3 where "T3 = fmul (borrow_rate64 p) Bo"
  have "\<bar>d * val Bo\<bar> \<le> 1 * (20 * A)" using d Bb by (intro prod_bound) simp_all
  then have "\<bar>val (borrow_rate64 p) * val Bo\<bar> \<le> 20 * A" by (simp add: d_def)
  then have "is_finite T3 \<and> \<bar>val T3 - val (borrow_rate64 p) * val Bo\<bar> \<le> 2 * (20 * A) / 2 ^ 53"
    unfolding T3_def using A(1) big by (intro fmul_error [OF fin(4) Bo(1)]) simp_all
  then have T3: "is_finite T3" "\<bar>val T3 - d * val Bo\<bar> \<le> 40 * w"
    by (simp_all add: d_def w_def)
  have "\<bar>val Bo * d - A * (L - 1) * d\<bar> \<le> 78 * w * 1" using Be d by (intro prod_near) simp_all
  then have "\<bar>d * val Bo - d * (A * (L - 1))\<bar> \<le> 78 * w" by (simp add: mult.commute)
  then have T3e: "\<bar>val T3 - d * (A * (L - 1))\<bar> \<le> 118 * w" using T3(2) by linarith
  have "\<bar>d * (A * (L - 1))\<bar> \<le> 1 * (19 * A)"
    using d Bx prod_bound [of d 1 "A * (L - 1)" "19 * A"] by simp
  then have T3x: "\<bar>d * (A * (L - 1))\<bar> \<le> 19 * A" by simp
  have T3b: "\<bar>val T3\<bar> \<le> 20 * A" using T3e T3x w by linarith

  \<comment> \<open>the difference\<close>
  have ae: "annual_earnings64 p = fsub T2 T3"
    by (simp add: annual_earnings64_def collateral64_def borrow64_def T2_def T1_def T3_def
        Bo_def S_def)
  have "\<bar>val T2 - val T3\<bar> \<le> 41 * A" using T2b T3b by linarith
  then have "is_finite (fsub T2 T3) \<and>
      \<bar>val (fsub T2 T3) - (val T2 - val T3)\<bar> \<le> 2 * (41 * A) / 2 ^ 53"
    using A(1) big by (intro fsub_error [OF T2(1) T3(1)]) simp_all
  then have D: "is_finite (fsub T2 T3)" "\<bar>val (fsub T2 T3) - (val T2 - val T3)\<bar> \<le> 82 * w"
    by (simp_all add: w_def)
  have ex: "annual_earnings (exact_position p) = c * A * L - d * (A * (L - 1))"
    by (simp add: annual_earnings_def exact_position_def collateral_def borrow_def
        A_def L_def c_def d_def)
  have "\<bar>val (fsub T2 T3) - (c * A * L - d * (A * (L - 1)))\<bar> \<le> 320 * w"
    using D(2) T2e T3e by linarith
  moreover have "\<bar>c * A * L - d * (A * (L - 1))\<bar> \<le> 20 * A"
  proof -
    have "0 \<le> c * A * L" using c A L by simp
    moreover have "0 \<le> d * (A * (L - 1))" using d A L by simp
    ultimately show ?thesis using T2x T3x by linarith
  qed
  ultimately show ?thesis using D(1) by (simp add: ae ex w_def A_def)
qed

lemma net_apy64_error:
  assumes "widget_range p"
  shows "\<exists>v. net_apy64 p = Inr v \<and> is_finite v \<and>
           \<bar>val v - (val (collateral_rate64 p) * val (leverage64 p)
                      - val (borrow_rate64 p) * (val (leverage64 p) - 1)) * 100\<bar>
             \<le> 40400 / 2 ^ 53"
proof -
  define A where "A = val (amount64 p)"
  define X where "X = annual_earnings (exact_position p)"
  define Y where "Y = val (collateral_rate64 p) * val (leverage64 p)
                      - val (borrow_rate64 p) * (val (leverage64 p) - 1)"
  define E where "E = annual_earnings64 p"
  have fa: "is_finite (amount64 p)" and A: "1 \<le> A"
    using assms by (simp_all add: widget_range_def A_def)
  have E: "is_finite E" "\<bar>val E - X\<bar> \<le> 320 * A / 2 ^ 53" "\<bar>X\<bar> \<le> 20 * A"
    using annual_earnings64_error [OF assms] by (simp_all add: E_def X_def A_def)
  have XY: "X / A = Y"
    using A
    by (simp add: X_def Y_def A_def annual_earnings_def exact_position_def collateral_def
        borrow_def field_simps)
  have nz: "\<not> is_zero (amount64 p)"
    using fa A by (cases "amount64 p") (simp_all add: A_def)

  \<comment> \<open>\<^verbatim>\<open>(...) / self.collateral\<close>\<close>
  define Q where "Q = fquot E (amount64 p)"
  have "\<bar>val E / A - X / A\<bar> = \<bar>val E - X\<bar> / A"
    using A by (simp add: diff_divide_distrib [symmetric])
  also have "\<dots> \<le> (320 * A / 2 ^ 53) / A" using E(2) A by (intro divide_right_mono) simp_all
  also have "\<dots> = 320 / 2 ^ 53" using A by simp
  finally have q1: "\<bar>val E / A - Y\<bar> \<le> 320 / 2 ^ 53" by (simp add: XY)
  have "\<bar>X / A\<bar> = \<bar>X\<bar> / A" using A by simp
  also have "\<dots> \<le> (20 * A) / A" using E(3) A by (intro divide_right_mono) simp_all
  also have "\<dots> = 20" using A by simp
  finally have Yb: "\<bar>Y\<bar> \<le> 20" by (simp add: XY)
  have "(320::real) / 2 ^ 53 \<le> 1" by simp
  then have "\<bar>val E / A\<bar> \<le> 21" using q1 Yb by linarith
  then have "\<bar>val E / val (amount64 p)\<bar> \<le> 21" by (simp add: A_def)
  then have "is_finite Q \<and> \<bar>val Q - val E / val (amount64 p)\<bar> \<le> 2 * 21 / 2 ^ 53"
    unfolding Q_def by (intro fquot_error [OF E(1) fa]) simp_all
  then have Q: "is_finite Q" "\<bar>val Q - val E / A\<bar> \<le> 42 / 2 ^ 53" by (simp_all add: A_def)
  have Qe: "\<bar>val Q - Y\<bar> \<le> 362 / 2 ^ 53" using Q(2) q1 by linarith
  have "(362::real) / 2 ^ 53 \<le> 1" by simp
  then have Qb: "\<bar>val Q\<bar> \<le> 21" using Qe Yb by linarith

  \<comment> \<open>\<^verbatim>\<open>... * 100\<close>\<close>
  define R where "R = fmul Q (Fin 100)"
  have "\<bar>val Q * val (Fin 100)\<bar> \<le> 2100" using Qb by simp
  then have "is_finite R \<and> \<bar>val R - val Q * val (Fin 100)\<bar> \<le> 2 * 2100 / 2 ^ 53"
    unfolding R_def by (intro fmul_error [OF Q(1)]) simp_all
  then have R: "is_finite R" "\<bar>val R - val Q * 100\<bar> \<le> 4200 / 2 ^ 53" by simp_all
  have "\<bar>val Q * 100 - Y * 100\<bar> \<le> 362 / 2 ^ 53 * 100"
    using Qe by (intro prod_near) simp_all
  then have Re: "\<bar>val R - Y * 100\<bar> \<le> 40400 / 2 ^ 53" using R(2) by linarith
  have "net_apy64 p = Inr R"
    using nz
    by (simp add: net_apy64_def fdiv_def collateral64_def R_def Q_def E_def
        annual_earnings64_def)
  then show ?thesis using R(1) Re by (simp add: Y_def)
qed

section \<open>Construction\<close>

text \<open>
  Claim C1, as the specification states it: constructing a position with a violated
  invariant (amount not positive, ltv outside the open interval from 0 to 1, leverage
  below 1 or above 1 / (1 - ltv), a negative rate) fails with \<open>InvalidInput\<close>, and
  construction with all invariants satisfied succeeds.

  The first half does not hold of the source. The constructor of the dataclass checks
  nothing: with amount 0 it returns an instance whose amount is 0.
\<close>

theorem construction_unchecked_counterexample:
  "(0::real) \<le> 0 \<and>
   MarginPosition_init 0 0.8 5 0.1376 0.1097 =
     Inr \<lparr>amount = 0, ltv = 0.8, leverage = 5,
          collateral_rate = 0.1376, borrow_rate = 0.1097\<rparr> \<and>
   MarginPosition_init 0 0.8 5 0.1376 0.1097 \<noteq> Inl InvalidInput"
  by (simp add: MarginPosition_init_def)

text \<open>
  Claim C1, amended: construction never fails, whatever the five values, and the
  instance holds exactly the values supplied. So construction with all invariants satisfied
  succeeds, and so does every other construction; the ranges of the inputs are set only
  by the bounds of the input widgets in \<^verbatim>\<open>main\<close>.
\<close>

theorem construction_total:
  "\<exists>p. MarginPosition_init a l lev cr br = Inr p \<and>
       amount p = a \<and> ltv p = l \<and> leverage p = lev \<and>
       collateral_rate p = cr \<and> borrow_rate p = br"
  by (simp add: MarginPosition_init_def)

section \<open>Earnings\<close>

text \<open>
  Claim C2. For every position the earnings accessors equal the formulas of the data
  model: annual_earnings = collateral_rate * collateral * leverage - borrow_rate * borrow,
  net_apy = annual_earnings / collateral * 100, monthly_earnings = annual_earnings / 12 and
  daily_earnings = annual_earnings / 365. The division by the collateral needs the amount
  to be non-zero, which the invariant amount > 0 of the data model gives; the other three
  equations hold of every instance.
\<close>

theorem earnings_formulas:
  "annual_earnings p =
     collateral_rate p * collateral p * leverage p - borrow_rate p * borrow p \<and>
   (amount p \<noteq> 0 \<longrightarrow> net_apy p = Inr (annual_earnings p / collateral p * 100)) \<and>
   monthly_earnings p = Inr (annual_earnings p / 12) \<and>
   daily_earnings p = Inr (annual_earnings p / 365)"
  by (simp add: net_apy_ok monthly_earnings_ok daily_earnings_ok)
     (simp add: annual_earnings_def)

theorem earnings_formulas_witness:
  "amount default_position \<noteq> 0 \<and>
   annual_earnings default_position = 24.92 \<and>
   net_apy default_position = Inr 24.92 \<and>
   monthly_earnings default_position = Inr (24.92 / 12) \<and>
   daily_earnings default_position = Inr (24.92 / 365)"
  using earnings_formulas [of default_position]
  by (simp add: default_position_def collateral_def borrow_def)

section \<open>Position sizes\<close>

text \<open>
  Claim C3. For every position the size accessors satisfy
  collateral = amount, borrow = amount * (leverage - 1) and deposit = collateral + borrow.
  None of the three can raise, and the equations need nothing of the field values.
\<close>

theorem position_sizes:
  "collateral p = amount p \<and>
   borrow p = amount p * (leverage p - 1) \<and>
   deposit p = collateral p + borrow p"
  by (simp add: collateral_def borrow_def deposit_def)

section \<open>The sensitivity report\<close>



text \<open>
  Claim C5. With the standard menu 1, 2, 3, 4, 5, max_leverage, where max_leverage is
  the base position's own computed 1 / (1 - ltv), the report is never empty and the row
  of the max_leverage candidate is always in it, whatever the rounding: the candidate and
  the bound are the same property of the same position, evaluated twice, and a binary64
  number other than NaN is not above itself. This is for a base position whose amount is
  not zero and whose ltv is a binary64 number strictly between 0 and 1; then
  \<^verbatim>\<open>1 - ltv\<close> is not zero and max_leverage is not NaN.

  For the base position amount 100, ltv 0.8, leverage 5, rates 0.1376 and 0.1097 the
  computed max_leverage is 5.000000000000001, the report on the menu 1, 2, 3, 4, 5, 5.0
  has exactly 6 rows, one per candidate and in the order of the menu, and so has the
  report on the position's own standard menu.
\<close>

theorem standard_menu_keeps_boundary64:
  "(\<not> is_zero (amount64 p) \<and> ltv64 p = Fin l \<and> 0 < l \<and> l < 1 \<and> round64 l = l \<longrightarrow>
      (\<exists>m rows. max_leverage64 p = Inr m \<and>
          leverages64 p = Inr [Fin 1, Fin 2, Fin 3, Fin 4, Fin 5, m] \<and>
          sensitivity_analysis64 f g p = Inr rows \<and>
          rows \<noteq> [] \<and>
          last rows = projection64 f g (p\<lparr>leverage64 := m\<rparr>))) \<and>
   max_leverage64 default_position64 = Inr (Fin (5629499534213121 / 2 ^ 50)) \<and>
   (\<exists>rows. sensitivity_loop64 f g default_position64
              [Fin 1, Fin 2, Fin 3, Fin 4, Fin 5, Fin 5] [] = Inr rows \<and>
           length rows = 6 \<and>
           rows = map (\<lambda>L. projection64 f g (default_position64\<lparr>leverage64 := L\<rparr>))
                    [Fin 1, Fin 2, Fin 3, Fin 4, Fin 5, Fin 5]) \<and>
   (\<exists>rows. sensitivity_analysis64 f g default_position64 = Inr rows \<and>
           length rows = 6 \<and>
           rows = map (\<lambda>L. projection64 f g (default_position64\<lparr>leverage64 := L\<rparr>))
                    [Fin 1, Fin 2, Fin 3, Fin 4, Fin 5, Fin (5629499534213121 / 2 ^ 50)])"
proof (intro conjI impI)
  assume h: "\<not> is_zero (amount64 p) \<and> ltv64 p = Fin l \<and> 0 < l \<and> l < 1 \<and> round64 l = l"
  then have a: "\<not> is_zero (amount64 p)" by simp
  obtain m where m: "max_leverage64 p = Inr m" "m \<noteq> NaN"
    using h max_leverage64_ok [of p l] by blast
  have keep: "fle m m" using m(2) by (rule fle_refl)
  have menu: "leverages64 p = Inr [Fin 1, Fin 2, Fin 3, Fin 4, Fin 5, m]"
    by (simp add: leverages64_def m(1))
  have split: "[Fin 1, Fin 2, Fin 3, Fin 4, Fin 5, m] = [Fin 1, Fin 2, Fin 3, Fin 4, Fin 5] @ [m]"
    by simp
  define front where
    "front = map (\<lambda>L. projection64 f g (p\<lparr>leverage64 := L\<rparr>))
               (filter (\<lambda>L. fle L m) [Fin 1, Fin 2, Fin 3, Fin 4, Fin 5])"
  have "sensitivity_analysis64 f g p =
          sensitivity_loop64 f g p ([Fin 1, Fin 2, Fin 3, Fin 4, Fin 5] @ [m]) []"
    by (simp add: sensitivity_analysis64_def menu)
  also have "\<dots> = Inr ([] @ map (\<lambda>L. projection64 f g (p\<lparr>leverage64 := L\<rparr>))
                        (filter (\<lambda>L. fle L m) ([Fin 1, Fin 2, Fin 3, Fin 4, Fin 5] @ [m])))"
    by (rule sensitivity_loop64_acc [OF a m(1)])
  also have "\<dots> = Inr (front @ [projection64 f g (p\<lparr>leverage64 := m\<rparr>)])"
    using keep by (simp only: filter_append map_append front_def) simp
  finally have "sensitivity_analysis64 f g p
                  = Inr (front @ [projection64 f g (p\<lparr>leverage64 := m\<rparr>)])" .
  then show "\<exists>m rows. max_leverage64 p = Inr m \<and>
          leverages64 p = Inr [Fin 1, Fin 2, Fin 3, Fin 4, Fin 5, m] \<and>
          sensitivity_analysis64 f g p = Inr rows \<and>
          rows \<noteq> [] \<and>
          last rows = projection64 f g (p\<lparr>leverage64 := m\<rparr>)"
    using m(1) menu by simp
next
  show "max_leverage64 default_position64 = Inr (Fin (5629499534213121 / 2 ^ 50))"
    by (rule default_max_leverage64)
next
  have a: "\<not> is_zero (amount64 default_position64)" by (simp add: default_position64_def)
  have "sensitivity_loop64 f g default_position64 [Fin 1, Fin 2, Fin 3, Fin 4, Fin 5, Fin 5] []
          = Inr ([] @ map (\<lambda>L. projection64 f g (default_position64\<lparr>leverage64 := L\<rparr>))
                  (filter (\<lambda>L. fle L (Fin (5629499534213121 / 2 ^ 50)))
                     [Fin 1, Fin 2, Fin 3, Fin 4, Fin 5, Fin 5]))"
    by (rule sensitivity_loop64_acc [OF a default_max_leverage64])
  then show "\<exists>rows. sensitivity_loop64 f g default_position64
              [Fin 1, Fin 2, Fin 3, Fin 4, Fin 5, Fin 5] [] = Inr rows \<and>
           length rows = 6 \<and>
           rows = map (\<lambda>L. projection64 f g (default_position64\<lparr>leverage64 := L\<rparr>))
                    [Fin 1, Fin 2, Fin 3, Fin 4, Fin 5, Fin 5]"
    by simp
next
  have a: "\<not> is_zero (amount64 default_position64)" by (simp add: default_position64_def)
  have "sensitivity_analysis64 f g default_position64 =
          sensitivity_loop64 f g default_position64
            [Fin 1, Fin 2, Fin 3, Fin 4, Fin 5, Fin (5629499534213121 / 2 ^ 50)] []"
    by (simp add: sensitivity_analysis64_def leverages64_def default_max_leverage64)
  also have "\<dots> = Inr ([] @ map (\<lambda>L. projection64 f g (default_position64\<lparr>leverage64 := L\<rparr>))
                  (filter (\<lambda>L. fle L (Fin (5629499534213121 / 2 ^ 50)))
                     [Fin 1, Fin 2, Fin 3, Fin 4, Fin 5, Fin (5629499534213121 / 2 ^ 50)]))"
    by (rule sensitivity_loop64_acc [OF a default_max_leverage64])
  finally show "\<exists>rows. sensitivity_analysis64 f g default_position64 = Inr rows \<and>
           length rows = 6 \<and>
           rows = map (\<lambda>L. projection64 f g (default_position64\<lparr>leverage64 := L\<rparr>))
                    [Fin 1, Fin 2, Fin 3, Fin 4, Fin 5, Fin (5629499534213121 / 2 ^ 50)]"
    by simp
qed

theorem standard_menu_keeps_boundary64_witness:
  "\<not> is_zero (amount64 default_position64) \<and>
   ltv64 default_position64 = Fin (3602879701896397 / 2 ^ 52) \<and>
   (0::real) < 3602879701896397 / 2 ^ 52 \<and> (3602879701896397 / 2 ^ 52 :: real) < 1 \<and>
   round64 (3602879701896397 / 2 ^ 52) = 3602879701896397 / 2 ^ 52 \<and>
   (\<exists>m rows. max_leverage64 default_position64 = Inr m \<and>
      sensitivity_analysis64 (\<lambda>x. ''n'') (\<lambda>x. ''n'') default_position64 = Inr rows \<and>
      rows \<noteq> [] \<and>
      last rows = projection64 (\<lambda>x. ''n'') (\<lambda>x. ''n'') (default_position64\<lparr>leverage64 := m\<rparr>))"
proof -
  have h: "\<not> is_zero (amount64 default_position64) \<and>
     ltv64 default_position64 = Fin (3602879701896397 / 2 ^ 52) \<and>
     (0::real) < 3602879701896397 / 2 ^ 52 \<and> (3602879701896397 / 2 ^ 52 :: real) < 1 \<and>
     round64 (3602879701896397 / 2 ^ 52) = 3602879701896397 / 2 ^ 52"
    by (simp add: default_position64_def binary64_eval)
  from h standard_menu_keeps_boundary64
         [of default_position64 "3602879701896397 / 2 ^ 52" "\<lambda>x. ''n''" "\<lambda>x. ''n''"]
  show ?thesis by blast
qed

section \<open>The worked example\<close>



section \<open>Leverage\<close>




text \<open>
  Claim C8, as the specification states it: with the other fields fixed, annual_earnings
  is strictly increasing in the leverage when collateral_rate > borrow_rate, and strictly
  decreasing when collateral_rate < borrow_rate.

  The values the code computes are not monotone. At the default rates, 0.1376 above
  0.1097, and amount 100, the leverages 3.0 and 3.0000000000000004 give the same
  annual_earnings 19.34, and from leverage 1.5374569764496049 to the next float
  1.537456976449605 the annual_earnings go down, from 15.259504964294399 to
  15.259504964294397.
\<close>

theorem annual_earnings_not_monotone_counterexample:
  "val (borrow_rate64 default_position64) < val (collateral_rate64 default_position64) \<and>
   literal 3.0000000000000004 = Fin (6755399441055745 / 2 ^ 51) \<and>
   (3::real) < 6755399441055745 / 2 ^ 51 \<and>
   annual_earnings64 (default_position64\<lparr>leverage64 := Fin 3\<rparr>)
     = Fin (5443726049584087 / 2 ^ 48) \<and>
   annual_earnings64 (default_position64\<lparr>leverage64 := Fin (6755399441055745 / 2 ^ 51)\<rparr>)
     = Fin (5443726049584087 / 2 ^ 48) \<and>
   literal 1.5374569764496049 = Fin (3462045333118305 / 2 ^ 51) \<and>
   literal 1.537456976449605 = Fin (6924090666236611 / 2 ^ 52) \<and>
   (3462045333118305 / 2 ^ 51 :: real) < 6924090666236611 / 2 ^ 52 \<and>
   annual_earnings64 (default_position64\<lparr>leverage64 := Fin (3462045333118305 / 2 ^ 51)\<rparr>)
     = Fin (8590337608881811 / 2 ^ 49) \<and>
   annual_earnings64 (default_position64\<lparr>leverage64 := Fin (6924090666236611 / 2 ^ 52)\<rparr>)
     = Fin (8590337608881810 / 2 ^ 49) \<and>
   (8590337608881810 / 2 ^ 49 :: real) < 8590337608881811 / 2 ^ 49"
proof -
  have 1: "literal 3.0000000000000004 = Fin (6755399441055745 / 2 ^ 51)"
    "literal 1.5374569764496049 = Fin (3462045333118305 / 2 ^ 51)"
    "literal 1.537456976449605 = Fin (6924090666236611 / 2 ^ 52)"
    by (simp_all add: binary64_eval)
  have 2: "val (borrow_rate64 default_position64) < val (collateral_rate64 default_position64)"
    by (simp add: default_position64_def binary64_eval)
  have 3: "annual_earnings64 (default_position64\<lparr>leverage64 := Fin 3\<rparr>)
             = Fin (5443726049584087 / 2 ^ 48)"
    by (simp add: accessors64 default_position64_def binary64_eval)
  have 4: "annual_earnings64 (default_position64\<lparr>leverage64 := Fin (6755399441055745 / 2 ^ 51)\<rparr>)
             = Fin (5443726049584087 / 2 ^ 48)"
    by (simp add: accessors64 default_position64_def binary64_eval)
  have 5: "annual_earnings64 (default_position64\<lparr>leverage64 := Fin (3462045333118305 / 2 ^ 51)\<rparr>)
             = Fin (8590337608881811 / 2 ^ 49)"
    by (simp add: accessors64 default_position64_def binary64_eval)
  have 6: "annual_earnings64 (default_position64\<lparr>leverage64 := Fin (6924090666236611 / 2 ^ 52)\<rparr>)
             = Fin (8590337608881810 / 2 ^ 49)"
    by (simp add: accessors64 default_position64_def binary64_eval)
  have 7: "(3::real) < 6755399441055745 / 2 ^ 51"
    "(3462045333118305 / 2 ^ 51 :: real) < 6924090666236611 / 2 ^ 52"
    "(8590337608881810 / 2 ^ 49 :: real) < 8590337608881811 / 2 ^ 49"
    by simp_all
  show ?thesis using 1 2 3 4 5 6 7 by blast
qed

text \<open>
  Claim C8, amended: annual_earnings is monotone in the leverage up to rounding. For two
  positions in the ranges of the widgets that differ only in their leverages \<open>l1 < l2\<close>:
  the computed annual_earnings of each is within 320 / 2 ^ 53 times the amount, less than
  3.6e-14 times the amount, of the exact value of the expression the property evaluates;
  that exact value is strictly greater at \<open>l2\<close> when collateral_rate > borrow_rate and
  strictly smaller when collateral_rate < borrow_rate; and the computed value itself is
  strictly greater at \<open>l2\<close> as soon as (collateral_rate - borrow_rate) * (l2 - l1) is at
  least 1e-13, strictly smaller as soon as (borrow_rate - collateral_rate) * (l2 - l1) is.
\<close>

theorem annual_earnings64_monotone_up_to_rounding:
  assumes "widget_range (p\<lparr>leverage64 := l1\<rparr>)" and "widget_range (p\<lparr>leverage64 := l2\<rparr>)"
    and "val l1 < val l2"
  shows "\<bar>val (annual_earnings64 (p\<lparr>leverage64 := l1\<rparr>))
           - annual_earnings (exact_position (p\<lparr>leverage64 := l1\<rparr>))\<bar>
           \<le> 320 * val (amount64 p) / 2 ^ 53 \<and>
         \<bar>val (annual_earnings64 (p\<lparr>leverage64 := l2\<rparr>))
           - annual_earnings (exact_position (p\<lparr>leverage64 := l2\<rparr>))\<bar>
           \<le> 320 * val (amount64 p) / 2 ^ 53 \<and>
         (val (borrow_rate64 p) < val (collateral_rate64 p) \<longrightarrow>
            annual_earnings (exact_position (p\<lparr>leverage64 := l1\<rparr>))
              < annual_earnings (exact_position (p\<lparr>leverage64 := l2\<rparr>))) \<and>
         (val (collateral_rate64 p) < val (borrow_rate64 p) \<longrightarrow>
            annual_earnings (exact_position (p\<lparr>leverage64 := l2\<rparr>))
              < annual_earnings (exact_position (p\<lparr>leverage64 := l1\<rparr>))) \<and>
         (1 / 10 ^ 13 \<le> (val (collateral_rate64 p) - val (borrow_rate64 p)) * (val l2 - val l1) \<longrightarrow>
            val (annual_earnings64 (p\<lparr>leverage64 := l1\<rparr>))
              < val (annual_earnings64 (p\<lparr>leverage64 := l2\<rparr>))) \<and>
         (1 / 10 ^ 13 \<le> (val (borrow_rate64 p) - val (collateral_rate64 p)) * (val l2 - val l1) \<longrightarrow>
            val (annual_earnings64 (p\<lparr>leverage64 := l2\<rparr>))
              < val (annual_earnings64 (p\<lparr>leverage64 := l1\<rparr>)))"
proof -
  define A where "A = val (amount64 p)"
  define c where "c = val (collateral_rate64 p)"
  define d where "d = val (borrow_rate64 p)"
  define X1 where "X1 = annual_earnings (exact_position (p\<lparr>leverage64 := l1\<rparr>))"
  define X2 where "X2 = annual_earnings (exact_position (p\<lparr>leverage64 := l2\<rparr>))"
  define V1 where "V1 = val (annual_earnings64 (p\<lparr>leverage64 := l1\<rparr>))"
  define V2 where "V2 = val (annual_earnings64 (p\<lparr>leverage64 := l2\<rparr>))"
  have A: "1 \<le> A" using assms(1) by (simp add: widget_range_def A_def)
  have e1: "\<bar>V1 - X1\<bar> \<le> 320 * A / 2 ^ 53"
    using annual_earnings64_error [OF assms(1)] by (simp add: V1_def X1_def A_def)
  have e2: "\<bar>V2 - X2\<bar> \<le> 320 * A / 2 ^ 53"
    using annual_earnings64_error [OF assms(2)] by (simp add: V2_def X2_def A_def)
  have x1: "X1 = A * ((c - d) * val l1 + d)"
    using annual_earnings_linear [where p = "exact_position p" and l = "val l1"]
    by (simp add: X1_def exact_position_def A_def c_def d_def)
  have x2: "X2 = A * ((c - d) * val l2 + d)"
    using annual_earnings_linear [where p = "exact_position p" and l = "val l2"]
    by (simp add: X2_def exact_position_def A_def c_def d_def)
  have diff: "X2 - X1 = A * ((c - d) * (val l2 - val l1))"
    by (simp add: x1 x2 algebra_simps)
  have up: "d < c \<longrightarrow> X1 < X2"
  proof
    assume "d < c"
    then have "0 < (c - d) * (val l2 - val l1)" using assms(3) by simp
    then have "0 < A * ((c - d) * (val l2 - val l1))" using A by simp
    then show "X1 < X2" using diff by linarith
  qed
  have down: "c < d \<longrightarrow> X2 < X1"
  proof
    assume "c < d"
    then have "(c - d) * (val l2 - val l1) < 0" using assms(3) by (simp add: mult_neg_pos)
    then have "A * ((c - d) * (val l2 - val l1)) < 0" using A by (simp add: mult_pos_neg)
    then show "X2 < X1" using diff by linarith
  qed
  have small: "2 * (320 * A / 2 ^ 53) < A * (1 / 10 ^ 13)" using A by simp
  have gap_up: "1 / 10 ^ 13 \<le> (c - d) * (val l2 - val l1) \<longrightarrow> V1 < V2"
  proof
    assume "1 / 10 ^ 13 \<le> (c - d) * (val l2 - val l1)"
    then have "A * (1 / 10 ^ 13) \<le> A * ((c - d) * (val l2 - val l1))"
      using A by (intro mult_left_mono) simp_all
    then show "V1 < V2" using small diff e1 e2 by linarith
  qed
  have gap_down: "1 / 10 ^ 13 \<le> (d - c) * (val l2 - val l1) \<longrightarrow> V2 < V1"
  proof
    assume "1 / 10 ^ 13 \<le> (d - c) * (val l2 - val l1)"
    then have "A * (1 / 10 ^ 13) \<le> A * ((d - c) * (val l2 - val l1))"
      using A by (intro mult_left_mono) simp_all
    moreover have "A * ((d - c) * (val l2 - val l1)) = X1 - X2"
      by (simp add: x1 x2 algebra_simps)
    ultimately show "V2 < V1" using small e1 e2 by linarith
  qed
  show ?thesis
    using e1 e2 up down gap_up gap_down
    unfolding A_def c_def d_def X1_def X2_def V1_def V2_def by blast
qed

theorem annual_earnings64_monotone_up_to_rounding_witness:
  "widget_range (default_position64\<lparr>leverage64 := Fin 1\<rparr>) \<and>
   widget_range (default_position64\<lparr>leverage64 := Fin 2\<rparr>) \<and>
   val (Fin 1) < val (Fin 2) \<and>
   val (borrow_rate64 default_position64) < val (collateral_rate64 default_position64) \<and>
   annual_earnings (exact_position (default_position64\<lparr>leverage64 := Fin 1\<rparr>))
     < annual_earnings (exact_position (default_position64\<lparr>leverage64 := Fin 2\<rparr>)) \<and>
   1 / 10 ^ 13 \<le> (val (collateral_rate64 default_position64)
                    - val (borrow_rate64 default_position64)) * (val (Fin 2) - val (Fin 1)) \<and>
   val (annual_earnings64 (default_position64\<lparr>leverage64 := Fin 1\<rparr>))
     < val (annual_earnings64 (default_position64\<lparr>leverage64 := Fin 2\<rparr>)) \<and>
   widget_range (default_position64\<lparr>borrow_rate64 := literal 0.2, leverage64 := Fin 1\<rparr>) \<and>
   widget_range (default_position64\<lparr>borrow_rate64 := literal 0.2, leverage64 := Fin 2\<rparr>) \<and>
   val (collateral_rate64 default_position64) < val (literal 0.2) \<and>
   annual_earnings
       (exact_position (default_position64\<lparr>borrow_rate64 := literal 0.2, leverage64 := Fin 2\<rparr>))
     < annual_earnings
         (exact_position (default_position64\<lparr>borrow_rate64 := literal 0.2, leverage64 := Fin 1\<rparr>)) \<and>
   1 / 10 ^ 13 \<le> (val (literal 0.2) - val (collateral_rate64 default_position64))
                    * (val (Fin 2) - val (Fin 1)) \<and>
   val (annual_earnings64 (default_position64\<lparr>borrow_rate64 := literal 0.2, leverage64 := Fin 2\<rparr>))
     < val (annual_earnings64 (default_position64\<lparr>borrow_rate64 := literal 0.2, leverage64 := Fin 1\<rparr>))"
proof -
  have g1: "1 / 10 ^ 13 \<le> (val (collateral_rate64 default_position64)
                    - val (borrow_rate64 default_position64)) * (val (Fin 2) - val (Fin 1))"
    by (simp add: default_position64_def binary64_eval)
  have g2: "1 / 10 ^ 13 \<le> (val (literal 0.2) - val (collateral_rate64 default_position64))
                    * (val (Fin 2) - val (Fin 1))"
    by (simp add: default_position64_def binary64_eval)
  have r1: "val (borrow_rate64 default_position64) < val (collateral_rate64 default_position64)"
    by (simp add: default_position64_def binary64_eval)
  have r2: "val (collateral_rate64 default_position64) < val (literal 0.2)"
    by (simp add: default_position64_def binary64_eval)
  have o: "val (Fin 1) < val (Fin 2)" by simp
  note up = annual_earnings64_monotone_up_to_rounding
              [OF default_widget_range(1) default_widget_range(2) o]
  note down = annual_earnings64_monotone_up_to_rounding
              [where p = "default_position64\<lparr>borrow_rate64 := literal 0.2\<rparr>"
               and ?l1.0 = "Fin 1" and ?l2.0 = "Fin 2",
               OF default_widget_range(3) default_widget_range(4) o]
  have 1: "annual_earnings (exact_position (default_position64\<lparr>leverage64 := Fin 1\<rparr>))
             < annual_earnings (exact_position (default_position64\<lparr>leverage64 := Fin 2\<rparr>))"
    using up r1 by blast
  have 2: "val (annual_earnings64 (default_position64\<lparr>leverage64 := Fin 1\<rparr>))
             < val (annual_earnings64 (default_position64\<lparr>leverage64 := Fin 2\<rparr>))"
    using up g1 by blast
  have 3: "annual_earnings
       (exact_position (default_position64\<lparr>borrow_rate64 := literal 0.2, leverage64 := Fin 2\<rparr>))
     < annual_earnings
         (exact_position (default_position64\<lparr>borrow_rate64 := literal 0.2, leverage64 := Fin 1\<rparr>))"
    using down r2 by simp
  have 4: "val (annual_earnings64
                 (default_position64\<lparr>borrow_rate64 := literal 0.2, leverage64 := Fin 2\<rparr>))
     < val (annual_earnings64
              (default_position64\<lparr>borrow_rate64 := literal 0.2, leverage64 := Fin 1\<rparr>))"
    using down g2 by simp
  show ?thesis using default_widget_range g1 g2 r1 r2 o 1 2 3 4 by blast
qed

section \<open>Absence of arithmetic errors\<close>

text \<open>
  Claim C9. For every position with amount > 0 and 0 < ltv < 1, no derived accessor
  raises: the denominators 1 - ltv, collateral, 12 and 365 are non-zero, so the four
  accessors that divide (max_leverage, net_apy, monthly_earnings, daily_earnings) return a
  value. The other four (collateral, borrow, deposit, annual_earnings) only add, subtract
  and multiply; they have no failing branch and are total by their type.
\<close>

theorem accessors_total:
  assumes "0 < amount p" and "0 < ltv p" and "ltv p < 1"
  shows "1 - ltv p \<noteq> 0 \<and> collateral p \<noteq> 0 \<and> (12::real) \<noteq> 0 \<and> (365::real) \<noteq> 0 \<and>
         (\<exists>v. max_leverage p = Inr v) \<and>
         (\<exists>v. net_apy p = Inr v) \<and>
         (\<exists>v. monthly_earnings p = Inr v) \<and>
         (\<exists>v. daily_earnings p = Inr v)"
proof -
  have ltv_ne: "ltv p \<noteq> 1" and amount_ne: "amount p \<noteq> 0"
    using assms by simp_all
  have denominators: "1 - ltv p \<noteq> 0 \<and> collateral p \<noteq> 0 \<and> (12::real) \<noteq> 0 \<and> (365::real) \<noteq> 0"
    using assms by (simp add: collateral_def)
  show ?thesis
    using denominators max_leverage_ok [OF ltv_ne] net_apy_ok [OF amount_ne]
      monthly_earnings_ok [of p] daily_earnings_ok [of p]
    by blast
qed

theorem accessors_total_witness:
  "0 < amount default_position \<and> 0 < ltv default_position \<and> ltv default_position < 1 \<and>
   (\<exists>v. max_leverage default_position = Inr v) \<and>
   (\<exists>v. net_apy default_position = Inr v) \<and>
   (\<exists>v. monthly_earnings default_position = Inr v) \<and>
   (\<exists>v. daily_earnings default_position = Inr v)"
  using accessors_total [of default_position]
  by (simp add: default_position_def)

section \<open>Net APY and the amount\<close>

text \<open>
  Claim C10, as stated: two positions that differ only in their positive amounts have
  equal net_apy, namely (collateral_rate * leverage - borrow_rate * (leverage - 1)) * 100.

  The values the code computes differ. The default position with amount 100 has net_apy
  24.919999999999995, with amount 7 it has 24.92000000000001.
\<close>

theorem net_apy_amount_counterexample:
  "net_apy64 (default_position64\<lparr>amount64 := Fin 100\<rparr>)
     = Inr (Fin (3507178209814773 / 2 ^ 47)) \<and>
   net_apy64 (default_position64\<lparr>amount64 := Fin 7\<rparr>)
     = Inr (Fin (3507178209814775 / 2 ^ 47)) \<and>
   net_apy64 (default_position64\<lparr>amount64 := Fin 7\<rparr>)
     \<noteq> net_apy64 (default_position64\<lparr>amount64 := Fin 100\<rparr>)"
proof -
  have 1: "net_apy64 (default_position64\<lparr>amount64 := Fin 100\<rparr>)
             = Inr (Fin (3507178209814773 / 2 ^ 47))"
    by (simp add: accessors64 default_position64_def binary64_eval)
  have 2: "net_apy64 (default_position64\<lparr>amount64 := Fin 7\<rparr>)
             = Inr (Fin (3507178209814775 / 2 ^ 47))"
    by (simp add: accessors64 default_position64_def binary64_eval)
  show ?thesis by (simp add: 1 2)
qed

text \<open>
  Claim C10, amended: net_apy is independent of the amount up to rounding. For two
  positions in the ranges of the widgets that differ only in their amounts, the computed
  net_apy of each is within 40400 / 2 ^ 53, less than 4.5e-12, of the exact value of
  (collateral_rate * leverage - borrow_rate * (leverage - 1)) * 100, which does not
  mention the amount, and so the two differ by at most 1e-11.
\<close>

theorem net_apy64_amount_free_up_to_rounding:
  assumes "widget_range (p\<lparr>amount64 := a\<rparr>)" and "widget_range (p\<lparr>amount64 := a'\<rparr>)"
  shows "\<exists>v v'. net_apy64 (p\<lparr>amount64 := a\<rparr>) = Inr v \<and>
           net_apy64 (p\<lparr>amount64 := a'\<rparr>) = Inr v' \<and>
           is_finite v \<and> is_finite v' \<and>
           \<bar>val v - (val (collateral_rate64 p) * val (leverage64 p)
                      - val (borrow_rate64 p) * (val (leverage64 p) - 1)) * 100\<bar>
             \<le> 40400 / 2 ^ 53 \<and>
           \<bar>val v' - (val (collateral_rate64 p) * val (leverage64 p)
                      - val (borrow_rate64 p) * (val (leverage64 p) - 1)) * 100\<bar>
             \<le> 40400 / 2 ^ 53 \<and>
           \<bar>val v - val v'\<bar> \<le> 1 / 10 ^ 11"
proof -
  define Y where "Y = (val (collateral_rate64 p) * val (leverage64 p)
                      - val (borrow_rate64 p) * (val (leverage64 p) - 1)) * 100"
  obtain v where v: "net_apy64 (p\<lparr>amount64 := a\<rparr>) = Inr v" "is_finite v"
    "\<bar>val v - Y\<bar> \<le> 40400 / 2 ^ 53"
    using net_apy64_error [OF assms(1)] by (auto simp add: Y_def)
  obtain v' where v': "net_apy64 (p\<lparr>amount64 := a'\<rparr>) = Inr v'" "is_finite v'"
    "\<bar>val v' - Y\<bar> \<le> 40400 / 2 ^ 53"
    using net_apy64_error [OF assms(2)] by (auto simp add: Y_def)
  have "2 * ((40400::real) / 2 ^ 53) \<le> 1 / 10 ^ 11" by simp
  then have "\<bar>val v - val v'\<bar> \<le> 1 / 10 ^ 11" using v(3) v'(3) by linarith
  then show ?thesis using v v' unfolding Y_def by blast
qed

theorem net_apy64_amount_free_up_to_rounding_witness:
  "widget_range (default_position64\<lparr>amount64 := Fin 100\<rparr>) \<and>
   widget_range (default_position64\<lparr>amount64 := Fin 7\<rparr>) \<and>
   (\<exists>v v'. net_apy64 (default_position64\<lparr>amount64 := Fin 100\<rparr>) = Inr v \<and>
      net_apy64 (default_position64\<lparr>amount64 := Fin 7\<rparr>) = Inr v' \<and>
      \<bar>val v - val v'\<bar> \<le> 1 / 10 ^ 11)"
  using net_apy64_amount_free_up_to_rounding
          [OF default_widget_range(5) default_widget_range(6)] default_widget_range(5,6)
  by blast

end
